theory Spec2Isabelle
  imports Complex_Main
begin

section \<open>Python values, exceptions and effects\<close>

text \<open>
  The program is \<^verbatim>\<open>src/autorunner/cli.py\<close> with its settings class
  \<^verbatim>\<open>src/autorunner/config.py\<close>. Everything the program asks of the outside
  (the screen, the template matcher, the pointer, the file system) is a response
  taken from an environment record; everything it does to the outside is an entry
  of an event trace.

  A Python exception is kept with its message \<open>str(e)\<close>, because the program
  inspects the message. \<open>KeyboardInterrupt\<close> derives from \<open>BaseException\<close> only, so
  a clause \<^verbatim>\<open>except Exception\<close> does not catch it.
\<close>

datatype exn = PyException string | KeyboardInterrupt

datatype log_line =
    Located string
  | NotFound string
  | Clicked string
  | ErrorFinding string exn
  | ErrorVerifying exn
  | ErrorDebugImage exn
  | ConfidenceFallback
  | CompletedRound int
  | StartedRound int
  | CenterClickWarning int
  | ProcessInterrupted int
  | ErrorDuringExecution exn

datatype event =
    Screenshot
  | SaveImage
  | LocateOnScreen string "rat option"
  | Sleep rat
  | MoveTo int int
  | Click
  | Log log_line

text \<open>
  A computation yields the events it caused and either the exception that left it
  or its value.
\<close>

type_synonym 'a res = "event list \<times> (exn + 'a)"

definition ret :: "'a \<Rightarrow> 'a res" where
  "ret a = ([], Inr a)"

definition raise :: "exn \<Rightarrow> 'a res" where
  "raise e = ([], Inl e)"

definition emit :: "event \<Rightarrow> unit res" where
  "emit ev = ([ev], Inr ())"

definition call :: "event \<Rightarrow> (exn + 'a) \<Rightarrow> 'a res" where
  "call ev response = ([ev], response)"

definition bind :: "'a res \<Rightarrow> ('a \<Rightarrow> 'b res) \<Rightarrow> 'b res" where
  "bind m f =
     (case m of
        (es, Inl e) \<Rightarrow> (es, Inl e)
      | (es, Inr a) \<Rightarrow> (case f a of (es', r) \<Rightarrow> (es @ es', r)))"

definition seq :: "unit res \<Rightarrow> 'b res \<Rightarrow> 'b res" where
  "seq m k = bind m (\<lambda>_. k)"

text \<open>\<^verbatim>\<open>try: m  except Exception as e: h(e)\<close>\<close>

definition try_except :: "'a res \<Rightarrow> (exn \<Rightarrow> 'a res) \<Rightarrow> 'a res" where
  "try_except m h =
     (case m of
        (es, Inl (PyException msg)) \<Rightarrow>
          (case h (PyException msg) of (es', r) \<Rightarrow> (es @ es', r))
      | (es, Inl KeyboardInterrupt) \<Rightarrow> (es, Inl KeyboardInterrupt)
      | (es, Inr a) \<Rightarrow> (es, Inr a))"

text \<open>The test \<^verbatim>\<open>needle in haystack\<close> on strings.\<close>

fun starts_with :: "string \<Rightarrow> string \<Rightarrow> bool" where
  "starts_with [] s = True"
| "starts_with (c # cs) [] = False"
| "starts_with (c # cs) (d # ds) = (c = d \<and> starts_with cs ds)"

fun str_contains :: "string \<Rightarrow> string \<Rightarrow> bool" where
  "str_contains needle [] = starts_with needle []"
| "str_contains needle (d # ds) = (starts_with needle (d # ds) \<or> str_contains needle ds)"

fun str_of_exn :: "exn \<Rightarrow> string" where
  "str_of_exn (PyException msg) = msg"
| "str_of_exn KeyboardInterrupt = []"

subsection \<open>Numbers\<close>

text \<open>
  Python integers are \<open>int\<close>. A Python float is kept as the rational it denotes;
  the rounding of an exact quotient to the nearest float is the parameter \<open>rnd\<close> of
  every operation that divides, so that each result below holds for whatever
  rounding the machine applies (and for none: \<open>rnd = (\<lambda>q. q)\<close>).
  Division by zero raises \<open>ZeroDivisionError\<close>.
\<close>

definition truediv :: "(rat \<Rightarrow> rat) \<Rightarrow> rat \<Rightarrow> rat \<Rightarrow> exn + rat" where
  "truediv rnd a b =
     (if b = 0 then Inl (PyException ''division by zero'') else Inr (rnd (a / b)))"

text \<open>\<^verbatim>\<open>int(q)\<close> truncates towards zero.\<close>

definition py_int :: "rat \<Rightarrow> int" where
  "py_int q = (if 0 \<le> q then \<lfloor>q\<rfloor> else \<lceil>q\<rceil>)"

section \<open>The settings class\<close>

text \<open>
  \<^verbatim>\<open>class Config\<close> of \<^verbatim>\<open>config.py\<close>. The program tests some attributes with
  \<^verbatim>\<open>hasattr\<close> and reads some with \<^verbatim>\<open>getattr(..., default)\<close>; such an attribute is
  an \<open>option\<close>, \<open>None\<close> when the class does not define it.
\<close>

record config =
  images_dir :: string
  start_button_img :: string
  end_button_img :: string
  end_button_alt_img :: string
  startup_delay :: rat
  round_wait_time :: rat
  between_rounds_wait_time :: rat
  retry_delay :: rat
  confidence_threshold :: "rat option"
  num_rounds :: int
  debug_mode :: "bool option"
  resize_images :: "bool option"
  max_failures_before_center_click :: "int option"

definition Config :: config where
  "Config =
     \<lparr> images_dir = ''images'',
       start_button_img = ''start_button.png'',
       end_button_img = ''end_button.png'',
       end_button_alt_img = ''end_button_alt.png'',
       startup_delay = 5,
       round_wait_time = 30,
       between_rounds_wait_time = 3,
       retry_delay = 2,
       confidence_threshold = Some (8 / 10),
       num_rounds = 10,
       debug_mode = None,
       resize_images = None,
       max_failures_before_center_click = None \<rparr>"

text \<open>The three guarded assignments at the top of \<^verbatim>\<open>cli.py\<close> (lines 17 to 24).\<close>

definition default_debug_mode :: "config \<Rightarrow> config" where
  "default_debug_mode c =
     (if debug_mode c = None then c\<lparr>debug_mode := Some False\<rparr> else c)"

definition default_confidence_threshold :: "config \<Rightarrow> config" where
  "default_confidence_threshold c =
     (if confidence_threshold c = None then c\<lparr>confidence_threshold := Some (9 / 10)\<rparr> else c)"

definition default_resize_images :: "config \<Rightarrow> config" where
  "default_resize_images c =
     (if resize_images c = None then c\<lparr>resize_images := Some False\<rparr> else c)"

definition cli_module_init :: "config \<Rightarrow> config" where
  "cli_module_init c =
     default_resize_images (default_confidence_threshold (default_debug_mode c))"

text \<open>\<^verbatim>\<open>getattr(self.config, 'confidence_threshold', 0.9)\<close>\<close>

definition getattr_confidence_threshold :: "config \<Rightarrow> rat" where
  "getattr_confidence_threshold c =
     (case confidence_threshold c of None \<Rightarrow> 9 / 10 | Some v \<Rightarrow> v)"

text \<open>\<^verbatim>\<open>getattr(self.config, 'max_failures_before_center_click', 5)\<close>\<close>

definition getattr_max_failures :: "config \<Rightarrow> int" where
  "getattr_max_failures c =
     (case max_failures_before_center_click c of None \<Rightarrow> 5 | Some v \<Rightarrow> v)"

text \<open>
  \<^verbatim>\<open>self.config.debug_mode\<close>: reading an attribute that the class lacks raises
  \<open>AttributeError\<close>.
\<close>

definition attr_debug_mode :: "config \<Rightarrow> exn + bool" where
  "attr_debug_mode c =
     (case debug_mode c of
        None \<Rightarrow> Inl (PyException ''AttributeError: debug_mode'')
      | Some b \<Rightarrow> Inr b)"

section \<open>The outside world\<close>

text \<open>
  A match rectangle as the template matcher returns it (\<open>location.left\<close>,
  \<open>location.top\<close>, \<open>location.width\<close>, \<open>location.height\<close>), in the coordinates
  of the captured image.
\<close>

record box =
  b_left :: int
  b_top :: int
  b_width :: int
  b_height :: int

text \<open>
  What the outside answers during one attempt. Every call of the library may raise.
  \<^item> \<open>pg_size\<close>: \<^verbatim>\<open>pyautogui.size()\<close>, the size the input subsystem reports;
  \<^item> \<open>pg_screenshot\<close>: \<^verbatim>\<open>pyautogui.screenshot()\<close>, answered by the size of the
    captured image;
  \<^item> \<open>img_save\<close>: saving an image file;
  \<^item> \<open>pg_locateOnScreen\<close>: \<^verbatim>\<open>pyautogui.locateOnScreen(path, confidence=c)\<close>, or
    without the keyword when the second argument is \<open>None\<close>;
  \<^item> \<open>path_is_file\<close>: \<^verbatim>\<open>Path(p).is_file()\<close>;
  \<^item> \<open>pg_center\<close>: \<^verbatim>\<open>pyautogui.center(location)\<close>, a library function whose
    result the program converts with \<open>int\<close>;
  \<^item> \<open>pg_moveTo\<close>, \<open>pg_click\<close>: the pointer.
\<close>

record env =
  pg_size :: "exn + int \<times> int"
  pg_screenshot :: "exn + int \<times> int"
  img_save :: "exn + unit"
  pg_locateOnScreen :: "string \<Rightarrow> rat option \<Rightarrow> exn + box option"
  path_is_file :: "string \<Rightarrow> bool"
  pg_center :: "box \<Rightarrow> rat \<times> rat"
  pg_moveTo :: "int \<Rightarrow> int \<Rightarrow> exn + unit"
  pg_click :: "exn + unit"

definition lift :: "exn + 'a \<Rightarrow> 'a res" where
  "lift response = ([], response)"

section \<open>The clicker\<close>

text \<open>
  The fields of an \<open>AutoClicker\<close> object. \<open>start_button_failures\<close> is created by
  the main loop on first use (\<^verbatim>\<open>hasattr(self, 'start_button_failures')\<close>), so it
  is an \<open>option\<close>. The scale factors exist from the constructor on, so the test
  \<^verbatim>\<open>hasattr(self, 'scale_factor_x')\<close> is always true and is not written.
\<close>

record clicker =
  self_start_button_img :: string
  self_end_button_img :: string
  self_end_button_alt_img :: string
  screen_width :: int
  screen_height :: int
  scale_factor_x :: rat
  scale_factor_y :: rat
  has_alt_end_button :: bool
  start_button_failures :: "int option"

subsection \<open>\<^verbatim>\<open>_verify_screen_dimensions\<close> (lines 102 to 121)\<close>

text \<open>
  The body of the \<^verbatim>\<open>try\<close>, with the object as it is when the exception leaves:
  the assignments are made one after the other, so a division that raises keeps the
  assignments made before it.
\<close>

definition verify_body :: "(rat \<Rightarrow> rat) \<Rightarrow> env \<Rightarrow> clicker \<Rightarrow> clicker \<times> exn option" where
  "verify_body rnd e slf =
     (case pg_screenshot e of
        Inl ex \<Rightarrow> (slf, Some ex)
      | Inr (actual_width, actual_height) \<Rightarrow>
          if actual_width \<noteq> screen_width slf \<or> actual_height \<noteq> screen_height slf then
            (case truediv rnd (of_int actual_width) (of_int (screen_width slf)) of
               Inl ex \<Rightarrow> (slf, Some ex)
             | Inr sx \<Rightarrow>
                 (case truediv rnd (of_int actual_height) (of_int (screen_height slf)) of
                    Inl ex \<Rightarrow> (slf\<lparr>scale_factor_x := sx\<rparr>, Some ex)
                  | Inr sy \<Rightarrow>
                      (slf\<lparr>scale_factor_x := sx, scale_factor_y := sy,
                            screen_width := actual_width, screen_height := actual_height\<rparr>,
                       None)))
          else (slf, None))"

definition verify_screen_dimensions ::
  "(rat \<Rightarrow> rat) \<Rightarrow> env \<Rightarrow> clicker \<Rightarrow> event list \<times> clicker \<times> exn option" where
  "verify_screen_dimensions rnd e slf =
     (case verify_body rnd e slf of
        (slf', None) \<Rightarrow> ([Screenshot], slf', None)
      | (slf', Some (PyException msg)) \<Rightarrow>
          ([Screenshot, Log (ErrorVerifying (PyException msg))], slf', None)
      | (slf', Some KeyboardInterrupt) \<Rightarrow> ([Screenshot], slf', Some KeyboardInterrupt))"

subsection \<open>The constructor, lines 52 to 61\<close>

text \<open>
  The part of \<^verbatim>\<open>__init__\<close> that establishes the screen geometry: it queries the
  reported size, sets both scale factors to \<open>1.0\<close> and calls
  \<^verbatim>\<open>_verify_screen_dimensions\<close>. The object comes in with the three template
  paths of lines 46 to 50.
\<close>

definition init_screen_geometry ::
  "(rat \<Rightarrow> rat) \<Rightarrow> env \<Rightarrow> clicker \<Rightarrow> event list \<times> clicker \<times> exn option" where
  "init_screen_geometry rnd e slf =
     (case pg_size e of
        Inl ex \<Rightarrow> ([], slf, Some ex)
      | Inr (w, h) \<Rightarrow>
          verify_screen_dimensions rnd e
            (slf\<lparr>screen_width := w, screen_height := h,
                  scale_factor_x := 1, scale_factor_y := 1\<rparr>))"

subsection \<open>\<^verbatim>\<open>_debug_click_position\<close> (lines 123 to 146)\<close>

definition debug_click_position :: "env \<Rightarrow> int \<Rightarrow> int \<Rightarrow> string \<Rightarrow> unit res" where
  "debug_click_position e x y description =
     try_except
       (bind (call Screenshot (pg_screenshot e)) (\<lambda>screen. call SaveImage (img_save e)))
       (\<lambda>ex. emit (Log (ErrorDebugImage ex)))"

subsection \<open>\<^verbatim>\<open>find_and_click\<close> (lines 195 to 291)\<close>

text \<open>Lines 211 to 221: the primary template, with the fall-back to exact matching.\<close>

definition locate_primary :: "env \<Rightarrow> string \<Rightarrow> string \<Rightarrow> rat \<Rightarrow> box option res" where
  "locate_primary e image_path description confidence =
     try_except
       (bind (call (LocateOnScreen image_path (Some confidence))
                (pg_locateOnScreen e image_path (Some confidence)))
          (\<lambda>location.
             case location of
               None \<Rightarrow> ret None
             | Some b \<Rightarrow> seq (emit (Log (Located description))) (ret (Some b))))
       (\<lambda>ex.
          if str_contains ''confidence'' (str_of_exn ex) then
            seq (emit (Log ConfidenceFallback))
              (call (LocateOnScreen image_path None) (pg_locateOnScreen e image_path None))
          else raise ex)"

text \<open>
  Lines 224 to 234: the alternative template, tried when the primary one gave no
  location, \<^verbatim>\<open>alt_image_path\<close> is truthy and names a file.
\<close>

definition locate_alternative :: "env \<Rightarrow> string \<Rightarrow> string \<Rightarrow> rat \<Rightarrow> box option res" where
  "locate_alternative e alt_image_path description confidence =
     try_except
       (bind (call (LocateOnScreen alt_image_path (Some confidence))
                (pg_locateOnScreen e alt_image_path (Some confidence)))
          (\<lambda>location.
             case location of
               None \<Rightarrow> ret None
             | Some b \<Rightarrow> seq (emit (Log (Located description))) (ret (Some b))))
       (\<lambda>ex.
          if str_contains ''confidence'' (str_of_exn ex) then
            call (LocateOnScreen alt_image_path None) (pg_locateOnScreen e alt_image_path None)
          else raise ex)"

text \<open>
  Line 224: \<^verbatim>\<open>if not location and alt_image_path and Path(alt_image_path).is_file()\<close>.
  An absent or empty \<^verbatim>\<open>alt_image_path\<close> is falsy.
\<close>

fun try_alternative ::
  "env \<Rightarrow> box option \<Rightarrow> string option \<Rightarrow> string \<Rightarrow> rat \<Rightarrow> box option res" where
  "try_alternative e (Some b) alt_image_path description confidence = ret (Some b)"
| "try_alternative e None None description confidence = ret None"
| "try_alternative e None (Some p) description confidence =
     (if p \<noteq> [] \<and> path_is_file e p
      then locate_alternative e p description confidence
      else ret None)"

text \<open>
  Lines 244 to 249, and again lines 372 to 374: the conversion from the coordinates
  of the captured image to those of the pointer. \<open>x\<close> is divided first.
\<close>

definition scale_point :: "(rat \<Rightarrow> rat) \<Rightarrow> clicker \<Rightarrow> int \<Rightarrow> int \<Rightarrow> exn + int \<times> int" where
  "scale_point rnd slf x y =
     (if scale_factor_x slf \<noteq> 1 \<or> scale_factor_y slf \<noteq> 1 then
        (case truediv rnd (of_int x) (scale_factor_x slf) of
           Inl ex \<Rightarrow> Inl ex
         | Inr qx \<Rightarrow>
             (case truediv rnd (of_int y) (scale_factor_y slf) of
                Inl ex \<Rightarrow> Inl ex
              | Inr qy \<Rightarrow> Inr (py_int qx, py_int qy)))
      else Inr (x, y))"

definition margin :: int where
  "margin = 20"

text \<open>The test of line 256.\<close>

definition outside_or_near_edge :: "int \<Rightarrow> int \<Rightarrow> int \<Rightarrow> int \<Rightarrow> bool" where
  "outside_or_near_edge x y sw sh =
     (sw \<le> x \<or> sh \<le> y \<or> x < margin \<or> y < margin \<or> sw - margin < x \<or> sh - margin < y)"

text \<open>
  Lines 238 to 269: from the match rectangle to the point to click. The bounds are
  those of a fresh \<^verbatim>\<open>pyautogui.size()\<close>.
\<close>

definition click_coordinates :: "(rat \<Rightarrow> rat) \<Rightarrow> env \<Rightarrow> clicker \<Rightarrow> box \<Rightarrow> exn + int \<times> int" where
  "click_coordinates rnd e slf location =
     (let center = pg_center e location;
          x = py_int (fst center);
          y = py_int (snd center)
      in case scale_point rnd slf x y of
           Inl ex \<Rightarrow> Inl ex
         | Inr (x, y) \<Rightarrow>
             (case pg_size e of
                Inl ex \<Rightarrow> Inl ex
              | Inr (sw, sh) \<Rightarrow>
                  if outside_or_near_edge x y sw sh then
                    (let safe_x = b_left location + margin;
                         safe_y = b_top location + margin;
                         safe_x = min (max margin safe_x) (sw - margin);
                         safe_y = min (max margin safe_y) (sh - margin)
                     in Inr (safe_x, safe_y))
                  else Inr (x, y)))"

text \<open>Lines 271 to 284.\<close>

definition move_and_click :: "config \<Rightarrow> env \<Rightarrow> int \<Rightarrow> int \<Rightarrow> string \<Rightarrow> bool res" where
  "move_and_click cfg e x y description =
     seq (emit (Sleep (2 / 10)))
    (seq (call (MoveTo x y) (pg_moveTo e x y))
    (seq (emit (Sleep (1 / 10)))
    (bind (lift (attr_debug_mode cfg)) (\<lambda>dbg.
     seq (if dbg then debug_click_position e x y description else ret ())
    (seq (call Click (pg_click e))
    (seq (emit (Log (Clicked description)))
         (ret True)))))))"

text \<open>The body of the outer \<^verbatim>\<open>try\<close>, lines 200 to 287.\<close>

definition find_and_click_body ::
  "(rat \<Rightarrow> rat) \<Rightarrow> config \<Rightarrow> env \<Rightarrow> clicker \<Rightarrow> string \<Rightarrow> string \<Rightarrow> string option \<Rightarrow> bool res" where
  "find_and_click_body rnd cfg e slf image_path description alt_image_path =
     bind (lift (attr_debug_mode cfg)) (\<lambda>dbg.
     seq (if dbg
          then bind (call Screenshot (pg_screenshot e)) (\<lambda>screen. call SaveImage (img_save e))
          else ret ())
    (let confidence = getattr_confidence_threshold cfg in
     bind (locate_primary e image_path description confidence) (\<lambda>location.
     bind (try_alternative e location alt_image_path description confidence) (\<lambda>location.
     case location of
       None \<Rightarrow> seq (emit (Log (NotFound description))) (ret False)
     | Some loc \<Rightarrow>
         bind (lift (click_coordinates rnd e slf loc)) (\<lambda>(x, y).
           move_and_click cfg e x y description)))))"

definition find_and_click ::
  "(rat \<Rightarrow> rat) \<Rightarrow> config \<Rightarrow> env \<Rightarrow> clicker \<Rightarrow> string \<Rightarrow> string \<Rightarrow> string option \<Rightarrow> bool res" where
  "find_and_click rnd cfg e slf image_path description alt_image_path =
     try_except
       (find_and_click_body rnd cfg e slf image_path description alt_image_path)
       (\<lambda>ex. seq (emit (Log (ErrorFinding description ex))) (ret False))"

section \<open>\<^verbatim>\<open>run_rounds\<close> (lines 293 to 394)\<close>

text \<open>
  The local variables of \<^verbatim>\<open>run_rounds\<close> together with the object. A step
  returns the events, the state it reached, and the exception that left it, if any.
\<close>

record run_state =
  self :: clicker
  rounds_completed :: int
  looking_for_end_button :: bool

text \<open>
  The outside during one pass: one answer record for each attempt the pass can make
  (the end button, the alternative end button, the start button, the click in the
  centre of the screen).
\<close>

record iter_env =
  at_end :: env
  at_alt_end :: env
  at_start :: env
  at_center :: env

text \<open>
  Lines 305 to 307 and again lines 330 to 334: the end button, then the alternative
  end button when the object has one.
\<close>

definition click_end_button :: "(rat \<Rightarrow> rat) \<Rightarrow> config \<Rightarrow> iter_env \<Rightarrow> clicker \<Rightarrow> bool res" where
  "click_end_button rnd cfg ie slf =
     bind (find_and_click rnd cfg (at_end ie) slf (self_end_button_img slf) ''end button'' None)
       (\<lambda>end_found.
          if \<not> end_found \<and> has_alt_end_button slf
          then find_and_click rnd cfg (at_alt_end ie) slf (self_end_button_alt_img slf)
                 ''alternative end button'' None
          else ret end_found)"

text \<open>Lines 303 to 323: the check of the initial state.\<close>

definition startup_probe ::
  "(rat \<Rightarrow> rat) \<Rightarrow> config \<Rightarrow> iter_env \<Rightarrow> run_state \<Rightarrow> event list \<times> run_state \<times> exn option" where
  "startup_probe rnd cfg ie st =
     (case click_end_button rnd cfg ie (self st) of
        (es, Inl ex) \<Rightarrow> (es, st, Some ex)
      | (es, Inr end_found) \<Rightarrow>
          if end_found then
            (es @ [Sleep (between_rounds_wait_time cfg)],
             st\<lparr>looking_for_end_button := False\<rparr>, None)
          else
            (case find_and_click rnd cfg (at_start ie) (self st)
                    (self_start_button_img (self st)) ''start button'' None of
               (es', Inl ex) \<Rightarrow> (es @ es', st, Some ex)
             | (es', Inr start_found) \<Rightarrow>
                 if start_found then
                   (es @ es' @ [Sleep (round_wait_time cfg)],
                    st\<lparr>looking_for_end_button := True\<rparr>, None)
                 else (es @ es', st\<lparr>looking_for_end_button := False\<rparr>, None)))"

text \<open>
  Lines 359 to 361: the counter of failed attempts at the start button, as it reads
  once \<^verbatim>\<open>hasattr\<close> has created it.
\<close>

definition failures_so_far :: "clicker \<Rightarrow> int" where
  "failures_so_far slf = (case start_button_failures slf of None \<Rightarrow> 0 | Some n \<Rightarrow> n)"

text \<open>Lines 358 to 387: a failed attempt at the start button.\<close>

definition start_failed ::
  "(rat \<Rightarrow> rat) \<Rightarrow> config \<Rightarrow> env \<Rightarrow> run_state \<Rightarrow> event list \<times> run_state \<times> exn option" where
  "start_failed rnd cfg e st =
     (let failures = failures_so_far (self st) + 1;
          st1 = st\<lparr>self := (self st)\<lparr>start_button_failures := Some failures\<rparr>\<rparr>
      in if getattr_max_failures cfg \<le> failures then
           (let center_x = screen_width (self st1) div 2;
                center_y = screen_height (self st1) div 2;
                warned = [Log (CenterClickWarning failures)]
            in case scale_point rnd (self st1) center_x center_y of
                 Inl ex \<Rightarrow> (warned, st1, Some ex)
               | Inr (center_x, center_y) \<Rightarrow>
                   (case pg_moveTo e center_x center_y of
                      Inl ex \<Rightarrow> (warned @ [MoveTo center_x center_y], st1, Some ex)
                    | Inr u \<Rightarrow>
                        (case pg_click e of
                           Inl ex \<Rightarrow> (warned @ [MoveTo center_x center_y, Click], st1, Some ex)
                         | Inr u \<Rightarrow>
                             (warned @ [MoveTo center_x center_y, Click,
                                        Sleep (retry_delay cfg * 2)],
                              st1\<lparr>self := (self st1)\<lparr>start_button_failures := Some 0\<rparr>\<rparr>,
                              None))))
         else ([Sleep (retry_delay cfg)], st1, None))"

text \<open>Lines 327 to 387: one pass of the main loop.\<close>

definition loop_iteration ::
  "(rat \<Rightarrow> rat) \<Rightarrow> config \<Rightarrow> iter_env \<Rightarrow> run_state \<Rightarrow> event list \<times> run_state \<times> exn option" where
  "loop_iteration rnd cfg ie st =
     (if looking_for_end_button st then
        (case click_end_button rnd cfg ie (self st) of
           (es, Inl ex) \<Rightarrow> (es, st, Some ex)
         | (es, Inr end_clicked) \<Rightarrow>
             if end_clicked then
               (es @ [Log (CompletedRound (rounds_completed st + 1)),
                      Sleep (between_rounds_wait_time cfg)],
                st\<lparr>rounds_completed := rounds_completed st + 1,
                   looking_for_end_button := False\<rparr>,
                None)
             else (es @ [Sleep (retry_delay cfg)], st, None))
      else
        (case find_and_click rnd cfg (at_start ie) (self st)
                (self_start_button_img (self st)) ''start button'' None of
           (es, Inl ex) \<Rightarrow> (es, st, Some ex)
         | (es, Inr start_clicked) \<Rightarrow>
             if start_clicked then
               (es @ [Log (StartedRound (rounds_completed st + 1)),
                      Sleep (round_wait_time cfg)],
                st\<lparr>looking_for_end_button := True\<rparr>,
                None)
             else
               (case start_failed rnd cfg (at_center ie) st of
                  (es', st', r) \<Rightarrow> (es @ es', st', r))))"

text \<open>
  Line 326: \<^verbatim>\<open>max_rounds\<close> is infinite, so the condition of the \<^verbatim>\<open>while\<close> is
  always true and the loop is left by an exception only. The passes are driven by
  the list of what the outside answers pass by pass; when the list is used up the
  loop is still running, and the result says so with no exception.
\<close>

fun main_loop ::
  "(rat \<Rightarrow> rat) \<Rightarrow> config \<Rightarrow> iter_env list \<Rightarrow> run_state \<Rightarrow> event list \<times> run_state \<times> exn option" where
  "main_loop rnd cfg [] st = ([], st, None)"
| "main_loop rnd cfg (ie # ies) st =
     (case loop_iteration rnd cfg ie st of
        (es, st', Some ex) \<Rightarrow> (es, st', Some ex)
      | (es, st', None) \<Rightarrow>
          (case main_loop rnd cfg ies st' of (es', st'', r) \<Rightarrow> (es @ es', st'', r)))"

datatype outcome = StillLooping | InterruptedByUser | EndedByError

text \<open>
  The handlers of lines 391 to 394. The message for the interrupt carries
  \<^verbatim>\<open>rounds_completed\<close>; the message for any other exception carries the exception
  only.
\<close>

fun handle_exit :: "event list \<times> run_state \<times> exn option \<Rightarrow> event list \<times> run_state \<times> outcome" where
  "handle_exit (es, st, None) = (es, st, StillLooping)"
| "handle_exit (es, st, Some KeyboardInterrupt) =
     (es @ [Log (ProcessInterrupted (rounds_completed st))], st, InterruptedByUser)"
| "handle_exit (es, st, Some (PyException msg)) =
     (es @ [Log (ErrorDuringExecution (PyException msg))], st, EndedByError)"

text \<open>Lines 295 and 296: the local variables as \<^verbatim>\<open>run_rounds\<close> sets them first.\<close>

definition initial_state :: "clicker \<Rightarrow> run_state" where
  "initial_state slf = \<lparr>self = slf, rounds_completed = 0, looking_for_end_button = False\<rparr>"

definition run_rounds ::
  "(rat \<Rightarrow> rat) \<Rightarrow> config \<Rightarrow> iter_env \<Rightarrow> iter_env list \<Rightarrow> clicker \<Rightarrow> event list \<times> run_state \<times> outcome" where
  "run_rounds rnd cfg probe ies slf =
     handle_exit
       (case startup_probe rnd cfg probe (initial_state slf) of
          (es, st, Some ex) \<Rightarrow> (es, st, Some ex)
        | (es, st, None) \<Rightarrow>
            (case main_loop rnd cfg ies st of (es', st', r) \<Rightarrow> (es @ es', st', r)))"

section \<open>Predicates on traces\<close>

text \<open>Every event of a computation's trace satisfies \<open>P\<close>.\<close>

definition trace_all :: "(event \<Rightarrow> bool) \<Rightarrow> 'a res \<Rightarrow> bool" where
  "trace_all P m = list_all P (fst m)"

text \<open>An event that moves the pointer moves it to a point that satisfies \<open>Q\<close>.\<close>

definition moves_to :: "(int \<Rightarrow> int \<Rightarrow> bool) \<Rightarrow> event \<Rightarrow> bool" where
  "moves_to Q ev = (case ev of MoveTo x y \<Rightarrow> Q x y | _ \<Rightarrow> True)"

section \<open>Sample worlds\<close>

text \<open>
  Concrete answers of the outside, for the instances below. \<open>library_center\<close> is the
  centre of a rectangle as the matcher's library computes it, the left upper corner
  plus half the extent.
\<close>

definition library_center :: "box \<Rightarrow> rat \<times> rat" where
  "library_center b =
     (of_int (b_left b + b_width b div 2), of_int (b_top b + b_height b div 2))"

text \<open>
  A world in which nothing raises: the input subsystem reports the size \<open>reported\<close>,
  a capture has the size \<open>captured\<close>, and the matcher answers \<open>found\<close> to every
  query.
\<close>

definition calm_env :: "int \<times> int \<Rightarrow> int \<times> int \<Rightarrow> box option \<Rightarrow> env" where
  "calm_env reported captured found =
     \<lparr> pg_size = Inr reported,
       pg_screenshot = Inr captured,
       img_save = Inr (),
       pg_locateOnScreen = (\<lambda>path confidence. Inr found),
       path_is_file = (\<lambda>path. False),
       pg_center = library_center,
       pg_moveTo = (\<lambda>x y. Inr ()),
       pg_click = Inr () \<rparr>"

definition same_everywhere :: "env \<Rightarrow> iter_env" where
  "same_everywhere e = \<lparr> at_end = e, at_alt_end = e, at_start = e, at_center = e \<rparr>"

text \<open>The object after lines 46 to 50, before the screen is measured.\<close>

definition fresh_clicker :: clicker where
  "fresh_clicker =
     \<lparr> self_start_button_img = ''images/start_button.png'',
       self_end_button_img = ''images/end_button.png'',
       self_end_button_alt_img = ''images/end_button_alt.png'',
       screen_width = 0, screen_height = 0,
       scale_factor_x = 1, scale_factor_y = 1,
       has_alt_end_button = False,
       start_button_failures = None \<rparr>"

text \<open>Arithmetic without rounding.\<close>

definition exact :: "rat \<Rightarrow> rat" where
  "exact q = q"

text \<open>The settings as the program runs with no flag.\<close>

definition settings :: config where
  "settings = cli_module_init Config"

text \<open>A screen of 1920 by 1080, captured at the same size; a button at (100, 100), 50 by 50.\<close>

definition plain_clicker :: clicker where
  "plain_clicker = fresh_clicker\<lparr>screen_width := 1920, screen_height := 1080\<rparr>"

definition button_env :: env where
  "button_env =
     calm_env (1920, 1080) (1920, 1080)
       (Some \<lparr>b_left = 100, b_top = 100, b_width = 50, b_height = 50\<rparr>)"

definition empty_env :: env where
  "empty_env = calm_env (1920, 1080) (1920, 1080) None"

text \<open>The same screen with a pointer that cannot move.\<close>

definition stuck_pointer_env :: env where
  "stuck_pointer_env = button_env\<lparr>pg_moveTo := (\<lambda>x y. Inl (PyException ''pointer failure''))\<rparr>"

definition stuck_empty_env :: env where
  "stuck_empty_env = empty_env\<lparr>pg_moveTo := (\<lambda>x y. Inl (PyException ''pointer failure''))\<rparr>"

text \<open>
  A screen reported as 1000 by 1000 and captured as 2000 by 2000, with a match
  rectangle at the right edge of the capture: its centre is (1990, 1000).
\<close>

definition hidpi_clicker :: clicker where
  "hidpi_clicker =
     fresh_clicker\<lparr>screen_width := 2000, screen_height := 2000,
                   scale_factor_x := 2, scale_factor_y := 2\<rparr>"

definition hidpi_env :: env where
  "hidpi_env =
     calm_env (1000, 1000) (2000, 2000)
       (Some \<lparr>b_left = 1970, b_top = 980, b_width = 40, b_height = 40\<rparr>)"

text \<open>
  A screen reported as 1920 by 1080 and captured as 3840 by 2160, with a match
  rectangle whose centre is (2000, 2000).
\<close>

definition retina_clicker :: clicker where
  "retina_clicker =
     fresh_clicker\<lparr>screen_width := 3840, screen_height := 2160,
                   scale_factor_x := 2, scale_factor_y := 2\<rparr>"

definition retina_env :: env where
  "retina_env =
     calm_env (1920, 1080) (3840, 2160)
       (Some \<lparr>b_left = 1975, b_top = 1975, b_width = 50, b_height = 50\<rparr>)"

text \<open>A matcher without the optional dependency, and a matcher that fails otherwise.\<close>

definition no_opencv_env :: env where
  "no_opencv_env =
     button_env\<lparr>pg_locateOnScreen :=
       (\<lambda>path confidence.
          case confidence of
            Some c \<Rightarrow> Inl (PyException ''The confidence keyword argument is only available if OpenCV is installed.'')
          | None \<Rightarrow> Inr (Some \<lparr>b_left = 100, b_top = 100, b_width = 50, b_height = 50\<rparr>))\<rparr>"

definition broken_matcher_env :: env where
  "broken_matcher_env =
     button_env\<lparr>pg_locateOnScreen := (\<lambda>path confidence. Inl (PyException ''screen grab failed''))\<rparr>"

text \<open>An object that has already failed four times to find the start button.\<close>

definition tired_clicker :: clicker where
  "tired_clicker = plain_clicker\<lparr>start_button_failures := Some 4\<rparr>"

text \<open>A world between two rounds: no end button on the screen, a start button there.\<close>

definition between_rounds :: iter_env where
  "between_rounds =
     \<lparr> at_end = empty_env, at_alt_end = empty_env, at_start = button_env, at_center = empty_env \<rparr>"


text \<open>A world in which the screen cannot be captured.\<close>

definition blind_env :: env where
  "blind_env = empty_env\<lparr>pg_screenshot := Inl (PyException ''screen grab failed'')\<rparr>"

section \<open>Properties\<close>

subsection \<open>Laws of the effect operations\<close>

lemma bind_unfold:
  "bind m f = (case snd m of Inl ex \<Rightarrow> (fst m, Inl ex) | Inr a \<Rightarrow> (fst m @ fst (f a), snd (f a)))"
  by (cases m) (auto simp: bind_def split: sum.splits prod.splits)

lemma try_except_unfold:
  "try_except m h =
     (case snd m of
        Inl (PyException msg) \<Rightarrow> (fst m @ fst (h (PyException msg)), snd (h (PyException msg)))
      | Inl KeyboardInterrupt \<Rightarrow> (fst m, Inl KeyboardInterrupt)
      | Inr a \<Rightarrow> (fst m, Inr a))"
  by (cases m) (auto simp: try_except_def split: sum.splits prod.splits exn.splits)

lemma bind_ret [simp]: "bind (ret a) f = f a"
  by (simp add: bind_def ret_def)

lemma bind_lift_Inr [simp]: "bind (lift (Inr a)) f = f a"
  by (simp add: bind_def lift_def)

lemma bind_lift_Inl [simp]: "bind (lift (Inl ex)) f = ([], Inl ex)"
  by (simp add: bind_def lift_def)

lemma seq_ret [simp]: "seq (ret u) k = k"
  by (simp add: seq_def)

lemma bind_trace_prefix: "\<exists>es. fst (bind m f) = fst m @ es"
  by (simp add: bind_unfold split: sum.splits)

lemma try_except_trace_prefix: "\<exists>es. fst (try_except m h) = fst m @ es"
  by (simp add: try_except_unfold split: sum.splits exn.splits)

lemma try_except_no_pyexn:
  assumes "\<And>ex. snd (h ex) \<noteq> Inl (PyException msg)"
  shows "snd (try_except m h) \<noteq> Inl (PyException msg)"
  using assms by (simp add: try_except_unfold split: sum.splits exn.splits)

lemma try_except_of_failure:
  assumes "snd m = Inl ex"
  shows "snd (try_except m (\<lambda>ex. seq (emit (Log (l ex))) (ret b))) = Inr b \<or>
         snd (try_except m (\<lambda>ex. seq (emit (Log (l ex))) (ret b))) = Inl KeyboardInterrupt"
  using assms
  by (cases ex) (simp_all add: try_except_unfold seq_def bind_def emit_def ret_def)

lemmas effect_defs = bind_def seq_def ret_def raise_def emit_def call_def lift_def try_except_def

subsection \<open>Laws of the trace predicates\<close>

lemma trace_all_ret [simp]: "trace_all P (ret a)"
  by (simp add: trace_all_def ret_def)

lemma trace_all_raise [simp]: "trace_all P (raise ex)"
  by (simp add: trace_all_def raise_def)

lemma trace_all_lift [simp]: "trace_all P (lift r)"
  by (simp add: trace_all_def lift_def)

lemma trace_all_emit [simp]: "trace_all P (emit ev) = P ev"
  by (simp add: trace_all_def emit_def)

lemma trace_all_call [simp]: "trace_all P (call ev r) = P ev"
  by (simp add: trace_all_def call_def)

lemma trace_all_bind:
  assumes "trace_all P m" and "\<And>a. snd m = Inr a \<Longrightarrow> trace_all P (f a)"
  shows "trace_all P (bind m f)"
  using assms by (auto simp: trace_all_def bind_unfold split: sum.splits)

lemma trace_all_seq:
  assumes "trace_all P m" and "trace_all P k"
  shows "trace_all P (seq m k)"
  unfolding seq_def using assms by (auto intro: trace_all_bind)

lemma trace_all_try_except:
  assumes "trace_all P m" and "\<And>ex. trace_all P (h ex)"
  shows "trace_all P (try_except m h)"
  using assms by (auto simp: trace_all_def try_except_unfold split: sum.splits exn.splits)

lemma trace_allD: "trace_all P m \<Longrightarrow> ev \<in> set (fst m) \<Longrightarrow> P ev"
  by (simp add: trace_all_def list_all_iff)

lemma moves_to_simps [simp]:
  "moves_to Q (MoveTo x y) = Q x y"
  "moves_to Q Screenshot" "moves_to Q SaveImage" "moves_to Q (LocateOnScreen p c)"
  "moves_to Q (Sleep t)" "moves_to Q Click" "moves_to Q (Log l)"
  by (simp_all add: moves_to_def)

subsection \<open>The parts of \<^verbatim>\<open>find_and_click\<close>\<close>

lemma locate_primary_first:
  "\<exists>es. fst (locate_primary e p d c) = LocateOnScreen p (Some c) # es"
proof -
  obtain es1 where "fst (locate_primary e p d c) =
      fst (bind (call (LocateOnScreen p (Some c)) (pg_locateOnScreen e p (Some c)))
          (\<lambda>location. case location of None \<Rightarrow> ret None
             | Some b \<Rightarrow> seq (emit (Log (Located d))) (ret (Some b)))) @ es1"
    unfolding locate_primary_def using try_except_trace_prefix by blast
  moreover obtain es2 where "fst (bind (call (LocateOnScreen p (Some c)) (pg_locateOnScreen e p (Some c)))
          (\<lambda>location. case location of None \<Rightarrow> ret None
             | Some b \<Rightarrow> seq (emit (Log (Located d))) (ret (Some b)))) =
          fst (call (LocateOnScreen p (Some c)) (pg_locateOnScreen e p (Some c))) @ es2"
    using bind_trace_prefix by blast
  ultimately show ?thesis by (simp add: call_def)
qed

lemma locate_primary_fallback:
  assumes "pg_locateOnScreen e p (Some c) = Inl (PyException m)"
    and "str_contains ''confidence'' m"
  shows "locate_primary e p d c =
           ([LocateOnScreen p (Some c), Log ConfidenceFallback, LocateOnScreen p None],
            pg_locateOnScreen e p None)"
  using assms
  by (simp add: locate_primary_def try_except_def bind_def call_def seq_def emit_def)

lemma locate_primary_other_failure:
  assumes "pg_locateOnScreen e p (Some c) = Inl (PyException m)"
    and "\<not> str_contains ''confidence'' m"
  shows "locate_primary e p d c = ([LocateOnScreen p (Some c)], Inl (PyException m))"
  using assms
  by (simp add: locate_primary_def try_except_def bind_def call_def raise_def)

lemma locate_primary_moves: "trace_all (moves_to Q) (locate_primary e p d c)"
  unfolding locate_primary_def
  by (intro trace_all_try_except trace_all_bind trace_all_seq)
     (auto split: option.splits intro!: trace_all_seq)

lemma locate_alternative_moves: "trace_all (moves_to Q) (locate_alternative e p d c)"
  unfolding locate_alternative_def
  by (intro trace_all_try_except trace_all_bind trace_all_seq)
     (auto split: option.splits intro!: trace_all_seq)

lemma try_alternative_moves: "trace_all (moves_to Q) (try_alternative e l alt d c)"
  by (cases "(e, l, alt, d, c)" rule: try_alternative.cases)
     (auto simp: locate_alternative_moves)

lemma debug_click_position_moves: "trace_all (moves_to Q) (debug_click_position e x y d)"
  unfolding debug_click_position_def
  by (intro trace_all_try_except trace_all_bind) auto

lemma move_and_click_moves: "Q x y \<Longrightarrow> trace_all (moves_to Q) (move_and_click cfg e x y d)"
  unfolding move_and_click_def
  by (intro trace_all_seq trace_all_bind)
     (auto simp: debug_click_position_moves)

lemma find_and_click_body_moves:
  assumes "\<And>loc x y. click_coordinates rnd e slf loc = Inr (x, y) \<Longrightarrow> Q x y"
  shows "trace_all (moves_to Q) (find_and_click_body rnd cfg e slf p d alt)"
  unfolding find_and_click_body_def Let_def
  apply (intro trace_all_seq trace_all_bind)
       apply (auto simp: locate_primary_moves try_alternative_moves
             split: option.splits intro!: trace_all_seq trace_all_bind)
  apply (auto simp: lift_def intro: move_and_click_moves assms)
  done

lemma find_and_click_moves:
  assumes "\<And>loc x y. click_coordinates rnd e slf loc = Inr (x, y) \<Longrightarrow> Q x y"
  shows "trace_all (moves_to Q) (find_and_click rnd cfg e slf p d alt)"
  unfolding find_and_click_def
  by (intro trace_all_try_except find_and_click_body_moves trace_all_seq) (auto intro: assms)

lemma find_and_click_no_pyexn:
  "snd (find_and_click rnd cfg e slf p d alt) \<noteq> Inl (PyException msg)"
  unfolding find_and_click_def
  by (rule try_except_no_pyexn) (simp add: seq_def bind_def emit_def ret_def)

lemma body_first_locate:
  assumes "debug_mode cfg = Some False"
  shows "\<exists>es. fst (find_and_click_body rnd cfg e slf p d alt) =
           LocateOnScreen p (Some (getattr_confidence_threshold cfg)) # es"
proof -
  let ?c = "getattr_confidence_threshold cfg"
  let ?k = "\<lambda>location.
     bind (try_alternative e location alt d ?c) (\<lambda>location.
     case location of
       None \<Rightarrow> seq (emit (Log (NotFound d))) (ret False)
     | Some loc \<Rightarrow>
         bind (lift (click_coordinates rnd e slf loc)) (\<lambda>(x, y).
           move_and_click cfg e x y d))"
  have "find_and_click_body rnd cfg e slf p d alt = bind (locate_primary e p d ?c) ?k"
    using assms
    by (simp add: find_and_click_body_def attr_debug_mode_def Let_def)
  then obtain es where
    "fst (find_and_click_body rnd cfg e slf p d alt) = fst (locate_primary e p d ?c) @ es"
    using bind_trace_prefix by metis
  then show ?thesis using locate_primary_first[of e p d ?c] by auto
qed

lemma first_locate:
  assumes "debug_mode cfg = Some False"
  shows "\<exists>es. fst (find_and_click rnd cfg e slf p d alt) =
           LocateOnScreen p (Some (getattr_confidence_threshold cfg)) # es"
proof -
  obtain es where
    "fst (find_and_click rnd cfg e slf p d alt) =
       fst (find_and_click_body rnd cfg e slf p d alt) @ es"
    unfolding find_and_click_def using try_except_trace_prefix by blast
  then show ?thesis using body_first_locate[OF assms, of rnd e slf p d alt] by auto
qed

lemma body_fails_when_locate_fails:
  assumes "snd (locate_primary e p d (getattr_confidence_threshold cfg)) = Inl ex"
  shows "\<exists>ex'. snd (find_and_click_body rnd cfg e slf p d alt) = Inl ex'"
  using assms
  by (simp add: find_and_click_body_def Let_def bind_unfold seq_def lift_def split: sum.splits)

lemma find_and_click_false_when_locate_fails:
  assumes "snd (locate_primary e p d (getattr_confidence_threshold cfg)) = Inl ex"
  shows "snd (find_and_click rnd cfg e slf p d alt) = Inr False \<or>
         snd (find_and_click rnd cfg e slf p d alt) = Inl KeyboardInterrupt"
proof -
  from body_fails_when_locate_fails[OF assms]
  obtain ex' where "snd (find_and_click_body rnd cfg e slf p d alt) = Inl ex'" by blast
  then show ?thesis
    unfolding find_and_click_def by (rule try_except_of_failure)
qed

lemma move_and_click_true:
  assumes "snd (move_and_click cfg e x y d) = Inr True"
  shows "pg_moveTo e x y = Inr () \<and> pg_click e = Inr ()"
  using assms
  by (auto simp: move_and_click_def bind_unfold seq_def call_def emit_def lift_def
      split: sum.splits if_splits)

lemma body_true:
  assumes "snd (find_and_click_body rnd cfg e slf p d alt) = Inr True"
  shows "\<exists>x y. snd (move_and_click cfg e x y d) = Inr True"
  using assms
  by (auto simp: find_and_click_body_def Let_def bind_unfold seq_def emit_def ret_def lift_def
      split: sum.splits option.splits prod.splits if_splits)

lemma find_and_click_true:
  assumes "snd (find_and_click rnd cfg e slf p d alt) = Inr True"
  shows "\<exists>x y. pg_moveTo e x y = Inr () \<and> pg_click e = Inr ()"
proof -
  from assms have "snd (find_and_click_body rnd cfg e slf p d alt) = Inr True"
    by (auto simp: find_and_click_def try_except_unfold seq_def bind_def emit_def ret_def
        split: sum.splits exn.splits)
  then show ?thesis using body_true move_and_click_true by blast
qed

subsection \<open>The point to click\<close>

lemma click_coordinates_within:
  assumes "click_coordinates rnd e slf loc = Inr (x, y)"
    and "pg_size e = Inr (sw, sh)"
    and "2 * margin \<le> sw" and "2 * margin \<le> sh"
  shows "margin \<le> x \<and> x \<le> sw - margin \<and> margin \<le> y \<and> y \<le> sh - margin"
  using assms
  by (auto simp: click_coordinates_def Let_def outside_or_near_edge_def
      split: sum.splits prod.splits if_splits)

lemma click_coordinates_center:
  assumes "scale_point rnd slf (py_int (fst (pg_center e loc))) (py_int (snd (pg_center e loc)))
             = Inr (px, py)"
    and "pg_size e = Inr (sw, sh)"
    and "margin \<le> px" "px \<le> sw - margin" "margin \<le> py" "py \<le> sh - margin"
  shows "click_coordinates rnd e slf loc = Inr (px, py)"
  using assms
  by (auto simp: click_coordinates_def Let_def outside_or_near_edge_def margin_def)

lemma scale_point_value:
  assumes "scale_point rnd slf x y = Inr (px, py)"
  shows "(px, py) =
     (if scale_factor_x slf = 1 \<and> scale_factor_y slf = 1 then (x, y)
      else (py_int (rnd (of_int x / scale_factor_x slf)),
            py_int (rnd (of_int y / scale_factor_y slf))))"
  using assms
  by (auto simp: scale_point_def truediv_def split: if_splits sum.splits)

lemma scale_point_failures [simp]:
  "scale_point rnd (slf\<lparr>start_button_failures := n\<rparr>) x y = scale_point rnd slf x y"
  by (simp add: scale_point_def split: sum.splits)

lemma find_and_click_primary_found:
  assumes "debug_mode cfg = Some False"
    and "pg_locateOnScreen e p (Some (getattr_confidence_threshold cfg)) = Inr (Some loc)"
    and "click_coordinates rnd e slf loc = Inr (x, y)"
  shows "\<exists>es. fst (find_and_click rnd cfg e slf p d alt) =
           [LocateOnScreen p (Some (getattr_confidence_threshold cfg)), Log (Located d),
            Sleep (2 / 10), MoveTo x y] @ es"
  using assms
  by (simp add: find_and_click_def find_and_click_body_def Let_def attr_debug_mode_def
      locate_primary_def move_and_click_def
      try_except_unfold bind_unfold seq_def call_def emit_def ret_def lift_def
      split: sum.splits exn.splits)

lemma click_coordinates_ignores_stored_size:
  "click_coordinates rnd e (slf\<lparr>screen_width := w, screen_height := h\<rparr>) loc =
   click_coordinates rnd e slf loc"
  by (simp add: click_coordinates_def scale_point_def Let_def split: sum.splits)

lemma find_and_click_ignores_stored_size:
  "find_and_click rnd cfg e (slf\<lparr>screen_width := w, screen_height := h\<rparr>) p d alt =
   find_and_click rnd cfg e slf p d alt"
  by (simp add: find_and_click_def find_and_click_body_def click_coordinates_ignores_stored_size)

subsection \<open>The screen geometry\<close>

lemma verify_body_success:
  assumes "pg_screenshot e = Inr (aw, ah)" and "screen_width slf \<noteq> 0" and "screen_height slf \<noteq> 0"
  shows "verify_body rnd e slf =
     (if aw \<noteq> screen_width slf \<or> ah \<noteq> screen_height slf
      then (slf\<lparr>scale_factor_x := rnd (of_int aw / of_int (screen_width slf)),
                 scale_factor_y := rnd (of_int ah / of_int (screen_height slf)),
                 screen_width := aw, screen_height := ah\<rparr>, None)
      else (slf, None))"
  using assms by (simp add: verify_body_def truediv_def)

lemma verify_body_failure:
  assumes "pg_screenshot e = Inl ex"
  shows "verify_body rnd e slf = (slf, Some ex)"
  using assms by (simp add: verify_body_def)

lemma verify_keeps_state:
  "fst (snd (verify_screen_dimensions rnd e slf)) = fst (verify_body rnd e slf)"
  by (simp add: verify_screen_dimensions_def split: prod.splits option.splits exn.splits)

lemma captured_size_adopted:
  assumes "pg_size e = Inr (sw, sh)" and "pg_screenshot e = Inr (aw, ah)"
    and "sw \<noteq> 0" and "sh \<noteq> 0"
  shows "screen_width (fst (snd (init_screen_geometry rnd e slf))) = aw \<and>
         screen_height (fst (snd (init_screen_geometry rnd e slf))) = ah"
  using assms
  by (auto simp: init_screen_geometry_def verify_keeps_state verify_body_success)

subsection \<open>The loop\<close>

lemma click_end_button_no_pyexn:
  "snd (click_end_button rnd cfg ie slf) \<noteq> Inl (PyException msg)"
  using find_and_click_no_pyexn
  by (auto simp: click_end_button_def bind_unfold ret_def split: sum.splits)

lemma click_end_button_order:
  "click_end_button rnd cfg ie slf =
     (if snd (find_and_click rnd cfg (at_end ie) slf (self_end_button_img slf) ''end button'' None)
           = Inr False \<and> has_alt_end_button slf
      then (fst (find_and_click rnd cfg (at_end ie) slf (self_end_button_img slf) ''end button'' None)
              @ fst (find_and_click rnd cfg (at_alt_end ie) slf (self_end_button_alt_img slf)
                       ''alternative end button'' None),
            snd (find_and_click rnd cfg (at_alt_end ie) slf (self_end_button_alt_img slf)
                       ''alternative end button'' None))
      else find_and_click rnd cfg (at_end ie) slf (self_end_button_img slf) ''end button'' None)"
  by (auto simp: click_end_button_def bind_unfold ret_def split: sum.splits intro: prod_eqI)

lemma start_failed_rounds:
  "rounds_completed (fst (snd (start_failed rnd cfg e st))) = rounds_completed st"
  by (simp add: start_failed_def Let_def split: sum.splits prod.splits)

lemma start_failed_roundsD:
  "start_failed rnd cfg e st = (es, st', r) \<Longrightarrow> rounds_completed st' = rounds_completed st"
  using start_failed_rounds[of rnd cfg e st] by simp

lemma startup_probe_no_pyexn:
  "snd (snd (startup_probe rnd cfg ie st)) \<noteq> Some (PyException msg)"
proof -
  have a: "\<And>es. click_end_button rnd cfg ie (self st) \<noteq> (es, Inl (PyException msg))"
    by (metis snd_conv click_end_button_no_pyexn)
  have b: "\<And>es. find_and_click rnd cfg (at_start ie) (self st)
                    (self_start_button_img (self st)) ''start button'' None
                  \<noteq> (es, Inl (PyException msg))"
    by (metis snd_conv find_and_click_no_pyexn)
  show ?thesis
    using a b by (auto simp: startup_probe_def split: prod.splits sum.splits)
qed

lemma loop_iteration_error_origin:
  assumes "snd (snd (loop_iteration rnd cfg ie st)) = Some (PyException msg)"
  shows "\<not> looking_for_end_button st \<and>
         snd (snd (start_failed rnd cfg (at_center ie) st)) = Some (PyException msg)"
proof -
  have a: "\<And>es. click_end_button rnd cfg ie (self st) \<noteq> (es, Inl (PyException msg))"
    by (metis snd_conv click_end_button_no_pyexn)
  have b: "\<And>es. find_and_click rnd cfg (at_start ie) (self st)
                    (self_start_button_img (self st)) ''start button'' None
                  \<noteq> (es, Inl (PyException msg))"
    by (metis snd_conv find_and_click_no_pyexn)
  show ?thesis
    using assms a b by (auto simp: loop_iteration_def split: prod.splits sum.splits if_splits)
qed

lemma start_failed_error_origin:
  assumes "snd (snd (start_failed rnd cfg e st)) = Some ex"
  shows "getattr_max_failures cfg \<le> failures_so_far (self st) + 1 \<and>
         (scale_point rnd (self st) (screen_width (self st) div 2) (screen_height (self st) div 2)
            = Inl ex \<or>
          (\<exists>cx cy. scale_point rnd (self st) (screen_width (self st) div 2)
                      (screen_height (self st) div 2) = Inr (cx, cy) \<and>
                    (pg_moveTo e cx cy = Inl ex \<or> pg_click e = Inl ex)))"
  using assms
  by (auto simp: start_failed_def Let_def split: sum.splits prod.splits if_splits)

lemma handle_exit_error:
  assumes "handle_exit r = (es, st, EndedByError)"
  shows "\<exists>es' msg. es = es' @ [Log (ErrorDuringExecution (PyException msg))] \<and>
           r = (es', st, Some (PyException msg))"
  using assms by (cases r rule: handle_exit.cases) auto

lemma main_loop_error_origin:
  assumes "main_loop rnd cfg ies st = (es, st', Some (PyException msg))"
  shows "\<exists>ie st0. ie \<in> set ies \<and> \<not> looking_for_end_button st0 \<and>
           snd (snd (start_failed rnd cfg (at_center ie) st0)) = Some (PyException msg)"
  using assms
proof (induction ies arbitrary: st es st')
  case Nil
  then show ?case by simp
next
  case (Cons ie ies)
  obtain es1 st1 r1 where it: "loop_iteration rnd cfg ie st = (es1, st1, r1)"
    by (cases "loop_iteration rnd cfg ie st") auto
  show ?case
  proof (cases r1)
    case None
    obtain es2 st2 r2 where rest: "main_loop rnd cfg ies st1 = (es2, st2, r2)"
      by (cases "main_loop rnd cfg ies st1") auto
    with Cons.prems it None have "r2 = Some (PyException msg)" by simp
    with rest Cons.IH show ?thesis by fastforce
  next
    case (Some ex)
    with Cons.prems it have "ex = PyException msg" by simp
    with it Some have "snd (snd (loop_iteration rnd cfg ie st)) = Some (PyException msg)" by simp
    from loop_iteration_error_origin[OF this] show ?thesis by auto
  qed
qed

lemma run_rounds_error_origin:
  assumes "run_rounds rnd cfg probe ies slf = (es, st, EndedByError)"
  shows "\<exists>es' msg ie st0. es = es' @ [Log (ErrorDuringExecution (PyException msg))] \<and>
           ie \<in> set ies \<and> \<not> looking_for_end_button st0 \<and>
           snd (snd (start_failed rnd cfg (at_center ie) st0)) = Some (PyException msg)"
proof -
  let ?st0 = "initial_state slf"
  obtain pe ps pr where probe: "startup_probe rnd cfg probe ?st0 = (pe, ps, pr)"
    by (cases "startup_probe rnd cfg probe ?st0") auto
  from startup_probe_no_pyexn[of rnd cfg probe ?st0] probe
  have nopy: "\<And>msg. pr \<noteq> Some (PyException msg)" by auto
  from assms obtain es' msg where
    es: "es = es' @ [Log (ErrorDuringExecution (PyException msg))]" and
    r: "(case startup_probe rnd cfg probe ?st0 of
          (es, st, Some ex) \<Rightarrow> (es, st, Some ex)
        | (es, st, None) \<Rightarrow>
            (case main_loop rnd cfg ies st of (es', st', r) \<Rightarrow> (es @ es', st', r)))
        = (es', st, Some (PyException msg))"
    unfolding run_rounds_def using handle_exit_error by blast
  show ?thesis
  proof (cases pr)
    case None
    obtain es2 st2 r2 where rest: "main_loop rnd cfg ies ps = (es2, st2, r2)"
      by (cases "main_loop rnd cfg ies ps") auto
    with r probe None have "r2 = Some (PyException msg)" by simp
    with rest main_loop_error_origin obtain ie st0 where
      "ie \<in> set ies \<and> \<not> looking_for_end_button st0 \<and>
           snd (snd (start_failed rnd cfg (at_center ie) st0)) = Some (PyException msg)"
      by blast
    with es show ?thesis by blast
  next
    case (Some ex)
    with r probe have "pr = Some (PyException msg)" by simp
    with nopy show ?thesis by blast
  qed
qed

subsection \<open>The sample worlds, evaluated\<close>

lemmas find_and_click_defs =
  find_and_click_def find_and_click_body_def locate_primary_def locate_alternative_def
  click_coordinates_def scale_point_def outside_or_near_edge_def margin_def move_and_click_def
  debug_click_position_def attr_debug_mode_def getattr_confidence_threshold_def
  truediv_def py_int_def

lemmas sample_defs =
  calm_env_def same_everywhere_def fresh_clicker_def exact_def library_center_def
  plain_clicker_def button_env_def empty_env_def stuck_pointer_env_def stuck_empty_env_def
  hidpi_clicker_def hidpi_env_def retina_clicker_def retina_env_def
  no_opencv_env_def broken_matcher_env_def tired_clicker_def between_rounds_def

lemma cfg_after_init:
  "cli_module_init Config = Config\<lparr>debug_mode := Some False, resize_images := Some False\<rparr>"
  by (simp add: cli_module_init_def default_debug_mode_def default_confidence_threshold_def
        default_resize_images_def Config_def)

lemma settings_fields:
  "debug_mode settings = Some False"
  "confidence_threshold settings = Some (8 / 10)"
  "getattr_confidence_threshold settings = 8 / 10"
  "max_failures_before_center_click settings = None"
  "getattr_max_failures settings = 5"
  "retry_delay settings = 2"
  "round_wait_time settings = 30"
  "between_rounds_wait_time settings = 3"
  unfolding settings_def cfg_after_init
  by (simp_all add: Config_def getattr_confidence_threshold_def getattr_max_failures_def)

lemma button_click:
  "find_and_click exact settings button_env plain_clicker p d None =
     ([LocateOnScreen p (Some (8 / 10)), Log (Located d), Sleep (2 / 10), MoveTo 125 125,
       Sleep (1 / 10), Click, Log (Clicked d)], Inr True)"
  by (simp add: settings_fields sample_defs find_and_click_defs effect_defs)

lemma empty_click:
  "find_and_click exact settings empty_env slf p d None =
     ([LocateOnScreen p (Some (8 / 10)), Log (NotFound d)], Inr False)"
  by (simp add: settings_fields sample_defs find_and_click_defs effect_defs)

lemma stuck_empty_click:
  "find_and_click exact settings stuck_empty_env slf p d None =
     ([LocateOnScreen p (Some (8 / 10)), Log (NotFound d)], Inr False)"
  by (simp add: settings_fields sample_defs find_and_click_defs effect_defs)

lemma stuck_pointer_click:
  "find_and_click exact settings stuck_pointer_env plain_clicker p d None =
     ([LocateOnScreen p (Some (8 / 10)), Log (Located d), Sleep (2 / 10), MoveTo 125 125,
       Log (ErrorFinding d (PyException ''pointer failure''))], Inr False)"
  by (simp add: settings_fields sample_defs find_and_click_defs effect_defs)

lemma hidpi_click:
  "find_and_click exact settings hidpi_env hidpi_clicker p d None =
     ([LocateOnScreen p (Some (8 / 10)), Log (Located d), Sleep (2 / 10), MoveTo 980 980,
       Sleep (1 / 10), Click, Log (Clicked d)], Inr True)"
  by (simp add: settings_fields sample_defs find_and_click_defs effect_defs)

lemma retina_click:
  "find_and_click exact settings retina_env retina_clicker p d None =
     ([LocateOnScreen p (Some (8 / 10)), Log (Located d), Sleep (2 / 10), MoveTo 1000 1000,
       Sleep (1 / 10), Click, Log (Clicked d)], Inr True)"
  by (simp add: settings_fields sample_defs find_and_click_defs effect_defs)

lemma hidpi_geometry:
  "init_screen_geometry exact (calm_env (1000, 1000) (2000, 2000) None) fresh_clicker =
     ([Screenshot], hidpi_clicker, None)"
  by (simp add: init_screen_geometry_def verify_screen_dimensions_def verify_body_def
      truediv_def sample_defs)

lemma clicker_fields:
  "has_alt_end_button plain_clicker = False"
  "self_start_button_img plain_clicker = ''images/start_button.png''"
  "self_end_button_img plain_clicker = ''images/end_button.png''"
  "has_alt_end_button tired_clicker = False"
  "self_start_button_img tired_clicker = ''images/start_button.png''"
  "self_end_button_img tired_clicker = ''images/end_button.png''"
  "start_button_failures tired_clicker = Some 4"
  "screen_width tired_clicker = 1920" "screen_height tired_clicker = 1080"
  "scale_factor_x tired_clicker = 1" "scale_factor_y tired_clicker = 1"
  "screen_width hidpi_clicker = 2000" "screen_height hidpi_clicker = 2000"
  "scale_factor_x hidpi_clicker = 2" "scale_factor_y hidpi_clicker = 2"
  "scale_factor_x retina_clicker = 2" "scale_factor_y retina_clicker = 2"
  by (simp_all add: tired_clicker_def plain_clicker_def hidpi_clicker_def retina_clicker_def
      fresh_clicker_def)

lemma world_fields:
  "at_end (same_everywhere e) = e" "at_alt_end (same_everywhere e) = e"
  "at_start (same_everywhere e) = e" "at_center (same_everywhere e) = e"
  "at_end between_rounds = empty_env" "at_alt_end between_rounds = empty_env"
  "at_start between_rounds = button_env" "at_center between_rounds = empty_env"
  "pg_size hidpi_env = Inr (1000, 1000)"
  "pg_size retina_env = Inr (1920, 1080)"
  "pg_moveTo empty_env x y = Inr ()" "pg_click empty_env = Inr ()"
  "pg_moveTo stuck_empty_env x y = Inl (PyException ''pointer failure'')"
  by (simp_all add: same_everywhere_def between_rounds_def hidpi_env_def retina_env_def
      empty_env_def stuck_empty_env_def calm_env_def)

subsection \<open>The claims\<close>

text \<open>
  C1, as the program has it. An exception of class \<open>Exception\<close> raised inside
  \<open>find_and_click\<close>, the pointer's move and click included, never leaves it: the
  attempt answers \<open>False\<close>, and it answers \<open>True\<close> only when the pointer did move
  and click. A pass of the main loop is left by such an exception only from the
  click in the centre of the screen that follows repeated failures to find the start
  button (the division by a scale factor, the move or the click there). A run that
  ends so ends with the message of line 394, which carries the exception.
\<close>

theorem only_center_click_failure_ends_loop:
  "snd (find_and_click rnd cfg e slf p d alt) \<noteq> Inl (PyException msg) \<and>
   (snd (find_and_click rnd cfg e slf p d alt) = Inr True \<longrightarrow>
      (\<exists>x y. pg_moveTo e x y = Inr () \<and> pg_click e = Inr ())) \<and>
   (snd (snd (loop_iteration rnd cfg ie st)) = Some (PyException msg) \<longrightarrow>
      \<not> looking_for_end_button st \<and>
      snd (snd (start_failed rnd cfg (at_center ie) st)) = Some (PyException msg)) \<and>
   (snd (snd (start_failed rnd cfg ec st)) = Some ex \<longrightarrow>
      getattr_max_failures cfg \<le> failures_so_far (self st) + 1 \<and>
      (scale_point rnd (self st) (screen_width (self st) div 2) (screen_height (self st) div 2)
         = Inl ex \<or>
       (\<exists>cx cy. scale_point rnd (self st) (screen_width (self st) div 2)
                   (screen_height (self st) div 2) = Inr (cx, cy) \<and>
                 (pg_moveTo ec cx cy = Inl ex \<or> pg_click ec = Inl ex)))) \<and>
   (run_rounds rnd cfg probe ies obj = (es, st', EndedByError) \<longrightarrow>
      (\<exists>es' msg' ie' st0.
         es = es' @ [Log (ErrorDuringExecution (PyException msg'))] \<and>
         ie' \<in> set ies \<and> \<not> looking_for_end_button st0 \<and>
         snd (snd (start_failed rnd cfg (at_center ie') st0)) = Some (PyException msg')))"
  using find_and_click_no_pyexn[of rnd cfg e slf p d alt msg]
    find_and_click_true[of rnd cfg e slf p d alt]
    loop_iteration_error_origin[of rnd cfg ie st msg]
    start_failed_error_origin[of rnd cfg ec st ex]
    run_rounds_error_origin[of rnd cfg probe ies obj es st']
  by blast

lemma tired_run:
  "run_rounds exact settings (same_everywhere empty_env) [same_everywhere stuck_empty_env]
     tired_clicker =
     ([LocateOnScreen ''images/end_button.png'' (Some (8 / 10)), Log (NotFound ''end button''),
       LocateOnScreen ''images/start_button.png'' (Some (8 / 10)), Log (NotFound ''start button''),
       LocateOnScreen ''images/start_button.png'' (Some (8 / 10)), Log (NotFound ''start button''),
       Log (CenterClickWarning 5), MoveTo 960 540,
       Log (ErrorDuringExecution (PyException ''pointer failure''))],
      \<lparr>self = tired_clicker\<lparr>start_button_failures := Some 5\<rparr>,
       rounds_completed = 0, looking_for_end_button = False\<rparr>,
      EndedByError)"
  by (simp add: run_rounds_def initial_state_def startup_probe_def click_end_button_def
      loop_iteration_def start_failed_def failures_so_far_def scale_point_def Let_def
      empty_click stuck_empty_click clicker_fields world_fields settings_fields effect_defs)

theorem only_center_click_failure_ends_loop_witness:
  "snd (snd (run_rounds exact settings (same_everywhere empty_env)
               [same_everywhere stuck_empty_env] tired_clicker)) = EndedByError \<and>
   (\<exists>es' msg' ie' st0.
      fst (run_rounds exact settings (same_everywhere empty_env)
             [same_everywhere stuck_empty_env] tired_clicker)
        = es' @ [Log (ErrorDuringExecution (PyException msg'))] \<and>
      ie' \<in> set [same_everywhere stuck_empty_env] \<and> \<not> looking_for_end_button st0 \<and>
      snd (snd (start_failed exact settings (at_center ie') st0)) = Some (PyException msg')) \<and>
   snd (find_and_click exact settings stuck_pointer_env plain_clicker
          ''images/start_button.png'' ''start button'' None) = Inr False"
proof -
  let ?run = "run_rounds exact settings (same_everywhere empty_env)
                [same_everywhere stuck_empty_env] tired_clicker"
  obtain es st where run: "?run = (es, st, EndedByError)"
    using tired_run by blast
  from only_center_click_failure_ends_loop
         [where rnd = exact and cfg = settings and e = stuck_pointer_env and slf = plain_clicker
            and p = "''images/start_button.png''" and d = "''start button''" and alt = None
            and msg = "''pointer failure''" and ie = "same_everywhere stuck_empty_env"
            and st = "initial_state tired_clicker" and ec = stuck_empty_env
            and ex = "PyException ''pointer failure''"
            and probe = "same_everywhere empty_env"
            and ies = "[same_everywhere stuck_empty_env]" and obj = tired_clicker
            and es = es and st' = st]
       run
  show ?thesis
    by (simp add: stuck_pointer_click)
qed

text \<open>
  C1, as the specification has it, fails: with a pointer that cannot move,
  \<open>find_and_click\<close> finds the button, fails to move, and answers \<open>False\<close>; the
  pass of the main loop that made the attempt ends without an exception, so the
  loop goes on. The run that does end by an error, the click in the centre with the
  same pointer, ends with the message of line 394.
\<close>

theorem pointer_failure_is_swallowed:
  "find_and_click exact settings stuck_pointer_env plain_clicker
     ''images/end_button.png'' ''end button'' None =
     ([LocateOnScreen ''images/end_button.png'' (Some (8 / 10)), Log (Located ''end button''),
       Sleep (2 / 10), MoveTo 125 125,
       Log (ErrorFinding ''end button'' (PyException ''pointer failure''))], Inr False) \<and>
   loop_iteration exact settings (same_everywhere stuck_pointer_env)
       \<lparr>self = plain_clicker, rounds_completed = 0, looking_for_end_button = True\<rparr> =
     ([LocateOnScreen ''images/end_button.png'' (Some (8 / 10)), Log (Located ''end button''),
       Sleep (2 / 10), MoveTo 125 125,
       Log (ErrorFinding ''end button'' (PyException ''pointer failure'')), Sleep 2],
      \<lparr>self = plain_clicker, rounds_completed = 0, looking_for_end_button = True\<rparr>, None) \<and>
   last (fst (run_rounds exact settings (same_everywhere empty_env)
                [same_everywhere stuck_empty_env] tired_clicker)) =
     Log (ErrorDuringExecution (PyException ''pointer failure''))"
  by (simp add: loop_iteration_def click_end_button_def stuck_pointer_click clicker_fields
      world_fields settings_fields effect_defs tired_run)

text \<open>
  C2, as the program has it. When the captured size differs from the reported one,
  the constructor stores the captured size in the object. The test before each click
  in \<open>find_and_click\<close> does not read the stored size: it asks the input subsystem
  again (\<^verbatim>\<open>pyautogui.size()\<close>), so the attempt is the same whatever size the object
  stores, and every point clicked lies within the margin of the size reported at
  that moment.
\<close>

theorem margin_check_uses_reported_size:
  assumes reported: "pg_size boot = Inr (sw, sh)" and captured: "pg_screenshot boot = Inr (aw, ah)"
    and nonzero: "sw \<noteq> 0" "sh \<noteq> 0"
    and now: "pg_size e = Inr (rw, rh)" and room: "2 * margin \<le> rw" "2 * margin \<le> rh"
  shows "screen_width (fst (snd (init_screen_geometry rnd boot obj))) = aw \<and>
         screen_height (fst (snd (init_screen_geometry rnd boot obj))) = ah \<and>
         find_and_click rnd cfg e (slf\<lparr>screen_width := w, screen_height := h\<rparr>) p d alt =
           find_and_click rnd cfg e slf p d alt \<and>
         (MoveTo x y \<in> set (fst (find_and_click rnd cfg e slf p d alt)) \<longrightarrow>
            margin \<le> x \<and> x \<le> rw - margin \<and> margin \<le> y \<and> y \<le> rh - margin)"
proof -
  let ?Q = "\<lambda>x y. margin \<le> x \<and> x \<le> rw - margin \<and> margin \<le> y \<and> y \<le> rh - margin"
  have "trace_all (moves_to ?Q) (find_and_click rnd cfg e slf p d alt)"
    by (rule find_and_click_moves) (rule click_coordinates_within[OF _ now room])
  then have "MoveTo x y \<in> set (fst (find_and_click rnd cfg e slf p d alt)) \<Longrightarrow> ?Q x y"
    using trace_allD by fastforce
  then show ?thesis
    using captured_size_adopted[OF reported captured nonzero, of rnd obj]
    by (simp add: find_and_click_ignores_stored_size)
qed

theorem margin_check_uses_reported_size_witness:
  "screen_width (fst (snd (init_screen_geometry exact
       (calm_env (1000, 1000) (2000, 2000) None) fresh_clicker))) = 2000 \<and>
   screen_height (fst (snd (init_screen_geometry exact
       (calm_env (1000, 1000) (2000, 2000) None) fresh_clicker))) = 2000 \<and>
   find_and_click exact settings hidpi_env
       (hidpi_clicker\<lparr>screen_width := 1000, screen_height := 1000\<rparr>)
       ''images/start_button.png'' ''start button'' None =
     find_and_click exact settings hidpi_env hidpi_clicker
       ''images/start_button.png'' ''start button'' None \<and>
   MoveTo 980 980 \<in> set (fst (find_and_click exact settings hidpi_env hidpi_clicker
       ''images/start_button.png'' ''start button'' None)) \<and>
   margin \<le> 980 \<and> 980 \<le> 1000 - margin"
proof -
  have a: "pg_size (calm_env (1000, 1000) (2000, 2000) None) = Inr (1000, 1000)"
    and b: "pg_screenshot (calm_env (1000, 1000) (2000, 2000) None) = Inr (2000, 2000)"
    by (simp_all add: calm_env_def)
  have c: "pg_size hidpi_env = Inr (1000, 1000)" by (simp add: world_fields)
  have d: "2 * margin \<le> (1000::int)" by (simp add: margin_def)
  have m: "MoveTo 980 980 \<in> set (fst (find_and_click exact settings hidpi_env hidpi_clicker
       ''images/start_button.png'' ''start button'' None))"
    by (simp add: hidpi_click)
  from margin_check_uses_reported_size
         [where rnd = exact and obj = fresh_clicker and cfg = settings
            and slf = hidpi_clicker and w = 1000 and h = 1000
            and p = "''images/start_button.png''" and d = "''start button''" and alt = None
            and x = 980 and y = 980, OF a b _ _ c d d] m
  show ?thesis by simp
qed

text \<open>
  C2, as the specification has it, fails. The input subsystem reports 1000 by 1000,
  the capture is 2000 by 2000: the constructor stores 2000 by 2000 and the scale
  factors 2. A match whose centre is (1990, 1000) in the capture scales to
  (995, 500), which is inside the margin of the stored, captured size; the test
  takes the reported size, finds 995 beyond 1000 - 20, and the click goes to the
  clamped corner (980, 980).
\<close>

theorem hidpi_margin_check:
  "init_screen_geometry exact (calm_env (1000, 1000) (2000, 2000) None) fresh_clicker =
     ([Screenshot], hidpi_clicker, None) \<and>
   screen_width hidpi_clicker = 2000 \<and> screen_height hidpi_clicker = 2000 \<and>
   scale_point exact hidpi_clicker 1990 1000 = Inr (995, 500) \<and>
   outside_or_near_edge 995 500 (screen_width hidpi_clicker) (screen_height hidpi_clicker) = False \<and>
   outside_or_near_edge 995 500 1000 1000 = True \<and>
   find_and_click exact settings hidpi_env hidpi_clicker
       ''images/start_button.png'' ''start button'' None =
     ([LocateOnScreen ''images/start_button.png'' (Some (8 / 10)), Log (Located ''start button''),
       Sleep (2 / 10), MoveTo 980 980, Sleep (1 / 10), Click, Log (Clicked ''start button'')],
      Inr True)"
  by (simp add: hidpi_geometry hidpi_click clicker_fields scale_point_def truediv_def py_int_def
      exact_def outside_or_near_edge_def margin_def)

text \<open>
  C3. Whatever rectangle the matcher returns and whatever the scale factors are, a
  point that \<open>find_and_click\<close> moves the pointer to lies within
  \<open>[margin, screenDim - margin]\<close> on both axes, with \<open>margin = 20\<close>. The screen
  size is the one the input subsystem reports at that moment, and the screen has
  room for the two margins (40 at least on each axis: on a smaller screen the
  interval is empty).
\<close>

theorem click_point_within_safe_margin:
  assumes "pg_size e = Inr (sw, sh)"
    and "2 * margin \<le> sw" and "2 * margin \<le> sh"
    and "MoveTo x y \<in> set (fst (find_and_click rnd cfg e slf p d alt))"
  shows "margin = 20 \<and> margin \<le> x \<and> x \<le> sw - margin \<and> margin \<le> y \<and> y \<le> sh - margin"
proof -
  let ?Q = "\<lambda>x y. margin \<le> x \<and> x \<le> sw - margin \<and> margin \<le> y \<and> y \<le> sh - margin"
  have "trace_all (moves_to ?Q) (find_and_click rnd cfg e slf p d alt)"
    by (rule find_and_click_moves) (rule click_coordinates_within[OF _ assms(1-3)])
  from trace_allD[OF this assms(4)] show ?thesis by (simp add: margin_def)
qed

theorem click_point_within_safe_margin_witness:
  "MoveTo 1000 1000 \<in> set (fst (find_and_click exact settings retina_env retina_clicker
       ''images/end_button.png'' ''end button'' None)) \<and>
   margin = 20 \<and> margin \<le> 1000 \<and> 1000 \<le> 1920 - margin \<and> 1000 \<le> 1080 - margin"
proof -
  have c: "pg_size retina_env = Inr (1920, 1080)" by (simp add: world_fields)
  have d: "2 * margin \<le> (1920::int)" "2 * margin \<le> (1080::int)" by (simp_all add: margin_def)
  have m: "MoveTo 1000 1000 \<in> set (fst (find_and_click exact settings retina_env retina_clicker
       ''images/end_button.png'' ''end button'' None))"
    by (simp add: retina_click)
  from click_point_within_safe_margin[OF c d m] m show ?thesis by simp
qed

text \<open>
  C4. When the scaled centre of the match lies within the safe bounds (the margin
  of the size the input subsystem reports), the point to click is exactly that
  centre: no corner takes its place. The scaled centre is the centre itself when
  both scale factors are 1.0, and otherwise the centre's coordinates divided by
  \<open>scaleX\<close> and \<open>scaleY\<close>, each quotient made a whole pixel by \<open>int\<close> as line 246
  does. With the primary template found and no debug mode, the pointer is moved
  there.
\<close>

theorem safe_center_is_clicked_unchanged:
  assumes centre: "scale_point rnd slf (py_int (fst (pg_center e loc)))
                     (py_int (snd (pg_center e loc))) = Inr (px, py)"
    and size: "pg_size e = Inr (sw, sh)"
    and safe: "margin \<le> px" "px \<le> sw - margin" "margin \<le> py" "py \<le> sh - margin"
  shows "click_coordinates rnd e slf loc = Inr (px, py) \<and>
         (px, py) =
           (if scale_factor_x slf = 1 \<and> scale_factor_y slf = 1
            then (py_int (fst (pg_center e loc)), py_int (snd (pg_center e loc)))
            else (py_int (rnd (of_int (py_int (fst (pg_center e loc))) / scale_factor_x slf)),
                  py_int (rnd (of_int (py_int (snd (pg_center e loc))) / scale_factor_y slf)))) \<and>
         (debug_mode cfg = Some False \<and>
          pg_locateOnScreen e p (Some (getattr_confidence_threshold cfg)) = Inr (Some loc) \<longrightarrow>
            (\<exists>es. fst (find_and_click rnd cfg e slf p d alt) =
               [LocateOnScreen p (Some (getattr_confidence_threshold cfg)), Log (Located d),
                Sleep (2 / 10), MoveTo px py] @ es))"
proof -
  have a: "click_coordinates rnd e slf loc = Inr (px, py)"
    by (rule click_coordinates_center[OF centre size safe])
  show ?thesis
    using a scale_point_value[OF centre] find_and_click_primary_found[OF _ _ a]
    by blast
qed

theorem safe_center_is_clicked_unchanged_witness:
  "click_coordinates exact retina_env retina_clicker
     \<lparr>b_left = 1975, b_top = 1975, b_width = 50, b_height = 50\<rparr> = Inr (1000, 1000) \<and>
   pg_center retina_env \<lparr>b_left = 1975, b_top = 1975, b_width = 50, b_height = 50\<rparr>
     = (2000, 2000) \<and>
   (\<exists>es. fst (find_and_click exact settings retina_env retina_clicker
                ''images/end_button.png'' ''end button'' None) =
      [LocateOnScreen ''images/end_button.png'' (Some (getattr_confidence_threshold settings)),
       Log (Located ''end button''), Sleep (2 / 10), MoveTo 1000 1000] @ es)"
proof -
  let ?loc = "\<lparr>b_left = 1975, b_top = 1975, b_width = 50, b_height = 50\<rparr>"
  have ctr: "pg_center retina_env ?loc = (2000, 2000)"
    by (simp add: retina_env_def calm_env_def library_center_def)
  have c: "scale_point exact retina_clicker (py_int (fst (pg_center retina_env ?loc)))
             (py_int (snd (pg_center retina_env ?loc))) = Inr (1000, 1000)"
    unfolding ctr
    by (simp add: scale_point_def truediv_def py_int_def exact_def clicker_fields)
  have s: "pg_size retina_env = Inr (1920, 1080)" by (simp add: world_fields)
  have f: "pg_locateOnScreen retina_env ''images/end_button.png''
             (Some (getattr_confidence_threshold settings)) = Inr (Some ?loc)"
    by (simp add: retina_env_def calm_env_def)
  from safe_center_is_clicked_unchanged
         [where cfg = settings and p = "''images/end_button.png''"
            and d = "''end button''" and alt = None, OF c s]
       f ctr
  show ?thesis by (simp add: margin_def settings_fields)
qed

text \<open>
  The counter of failed attempts at the start button. A failed attempt adds 1; when
  the sum reaches the threshold the centre of the screen is clicked and the counter
  is set to 0. A clicked start button and a pass that seeks the end button leave the
  object, and so the counter, as it is.
\<close>

lemma start_failed_counter:
  "start_button_failures (self (fst (snd (start_failed rnd cfg e st)))) =
     Some (if getattr_max_failures cfg \<le> failures_so_far (self st) + 1 \<and>
              snd (snd (start_failed rnd cfg e st)) = None
           then 0 else failures_so_far (self st) + 1)"
  by (simp add: start_failed_def Let_def split: sum.splits prod.splits)

lemma start_click_keeps_counter:
  assumes "\<not> looking_for_end_button st"
    and "find_and_click rnd cfg (at_start ie) (self st)
           (self_start_button_img (self st)) ''start button'' None = (es, Inr True)"
  shows "loop_iteration rnd cfg ie st =
           (es @ [Log (StartedRound (rounds_completed st + 1)), Sleep (round_wait_time cfg)],
            st\<lparr>looking_for_end_button := True\<rparr>, None)"
  using assms by (simp add: loop_iteration_def)

lemma end_pass_keeps_counter:
  assumes "looking_for_end_button st"
  shows "self (fst (snd (loop_iteration rnd cfg ie st))) = self st"
  using assms by (simp add: loop_iteration_def split: prod.splits sum.splits)

text \<open>
  The step that clicks the centre: where the pointer goes, what is waited for, and
  what the state is afterwards, when the pointer works.
\<close>

lemma center_click_step:
  assumes seeking: "\<not> looking_for_end_button st"
    and failed: "find_and_click rnd cfg (at_start ie) (self st)
                   (self_start_button_img (self st)) ''start button'' None = (es, Inr False)"
    and reached: "getattr_max_failures cfg \<le> failures_so_far (self st) + 1"
    and scaled: "scale_point rnd (self st) (screen_width (self st) div 2)
                   (screen_height (self st) div 2) = Inr (cx, cy)"
    and moved: "pg_moveTo (at_center ie) cx cy = Inr ()"
    and clicked: "pg_click (at_center ie) = Inr ()"
  shows "loop_iteration rnd cfg ie st =
           (es @ [Log (CenterClickWarning (failures_so_far (self st) + 1)),
                  MoveTo cx cy, Click, Sleep (retry_delay cfg * 2)],
            st\<lparr>self := (self st)\<lparr>start_button_failures := Some 0\<rparr>\<rparr>,
            None) \<and>
         looking_for_end_button (fst (snd (loop_iteration rnd cfg ie st))) = False \<and>
         (cx, cy) =
           (if scale_factor_x (self st) = 1 \<and> scale_factor_y (self st) = 1
            then (screen_width (self st) div 2, screen_height (self st) div 2)
            else (py_int (rnd (of_int (screen_width (self st) div 2) / scale_factor_x (self st))),
                  py_int (rnd (of_int (screen_height (self st) div 2) / scale_factor_y (self st))))) \<and>
         (max_failures_before_center_click cfg = None \<longrightarrow> getattr_max_failures cfg = 5)"
proof -
  have a: "start_failed rnd cfg (at_center ie) st =
      ([Log (CenterClickWarning (failures_so_far (self st) + 1)),
                  MoveTo cx cy, Click, Sleep (retry_delay cfg * 2)],
            st\<lparr>self := (self st)\<lparr>start_button_failures := Some 0\<rparr>\<rparr>, None)"
    using reached scaled moved clicked
    by (simp add: start_failed_def Let_def)
  have b: "loop_iteration rnd cfg ie st =
           (es @ [Log (CenterClickWarning (failures_so_far (self st) + 1)),
                  MoveTo cx cy, Click, Sleep (retry_delay cfg * 2)],
            st\<lparr>self := (self st)\<lparr>start_button_failures := Some 0\<rparr>\<rparr>,
            None)"
    using seeking failed a by (simp add: loop_iteration_def)
  have c: "looking_for_end_button (fst (snd (loop_iteration rnd cfg ie st))) = False"
    using b seeking by simp
  show ?thesis
    using b c scale_point_value[OF scaled]
    by (simp add: getattr_max_failures_def)
qed

text \<open>
  The scenario from a fresh counter: four failed attempts wait \<open>retry_delay\<close> each,
  the fifth clicks the centre and resets the counter.
\<close>

lemma five_failures_then_center_click:
  "main_loop exact settings
     [same_everywhere empty_env, same_everywhere empty_env, same_everywhere empty_env,
      same_everywhere empty_env, same_everywhere empty_env]
     (initial_state plain_clicker) =
     ([LocateOnScreen ''images/start_button.png'' (Some (8 / 10)), Log (NotFound ''start button''),
       Sleep 2,
       LocateOnScreen ''images/start_button.png'' (Some (8 / 10)), Log (NotFound ''start button''),
       Sleep 2,
       LocateOnScreen ''images/start_button.png'' (Some (8 / 10)), Log (NotFound ''start button''),
       Sleep 2,
       LocateOnScreen ''images/start_button.png'' (Some (8 / 10)), Log (NotFound ''start button''),
       Sleep 2,
       LocateOnScreen ''images/start_button.png'' (Some (8 / 10)), Log (NotFound ''start button''),
       Log (CenterClickWarning 5), MoveTo 960 540, Click, Sleep 4],
      \<lparr>self = plain_clicker\<lparr>start_button_failures := Some 0\<rparr>,
       rounds_completed = 0, looking_for_end_button = False\<rparr>,
      None)"
  by (simp add: initial_state_def loop_iteration_def start_failed_def failures_so_far_def
      scale_point_def Let_def empty_click plain_clicker_def fresh_clicker_def
      world_fields settings_fields)





text \<open>
  C6. In a pass of the main loop, \<open>rounds_completed\<close> grows by exactly 1 when the
  state seeks the end button and the end button (or its alternative) was clicked,
  and stays as it is in every other case: a failed attempt in either state, a
  clicked start button, an exception. A clicked end button leaves the state seeking
  the start button; a failed attempt at the end button leaves the state as it is,
  after a wait of \<open>retry_delay\<close>.
\<close>

theorem rounds_counted_on_end_click_only:
  "rounds_completed (fst (snd (loop_iteration rnd cfg ie st))) =
     (if looking_for_end_button st \<and> snd (click_end_button rnd cfg ie (self st)) = Inr True
      then rounds_completed st + 1 else rounds_completed st) \<and>
   (looking_for_end_button st \<and> snd (click_end_button rnd cfg ie (self st)) = Inr True \<longrightarrow>
      looking_for_end_button (fst (snd (loop_iteration rnd cfg ie st))) = False \<and>
      snd (snd (loop_iteration rnd cfg ie st)) = None) \<and>
   (looking_for_end_button st \<and> snd (click_end_button rnd cfg ie (self st)) = Inr False \<longrightarrow>
      loop_iteration rnd cfg ie st =
        (fst (click_end_button rnd cfg ie (self st)) @ [Sleep (retry_delay cfg)], st, None))"
  by (auto simp: loop_iteration_def split: prod.splits sum.splits dest: start_failed_roundsD)

lemma button_end_click:
  "click_end_button exact settings (same_everywhere button_env) plain_clicker =
     ([LocateOnScreen ''images/end_button.png'' (Some (8 / 10)), Log (Located ''end button''),
       Sleep (2 / 10), MoveTo 125 125, Sleep (1 / 10), Click, Log (Clicked ''end button'')],
      Inr True)"
  by (simp add: click_end_button_def world_fields clicker_fields button_click effect_defs)

lemma empty_end_click:
  "click_end_button exact settings (same_everywhere empty_env) plain_clicker =
     ([LocateOnScreen ''images/end_button.png'' (Some (8 / 10)), Log (NotFound ''end button'')],
      Inr False)"
  by (simp add: click_end_button_def world_fields clicker_fields empty_click effect_defs)

lemma between_rounds_end_click:
  "click_end_button exact settings between_rounds plain_clicker =
     ([LocateOnScreen ''images/end_button.png'' (Some (8 / 10)), Log (NotFound ''end button'')],
      Inr False)"
  by (simp add: click_end_button_def world_fields clicker_fields empty_click effect_defs)

theorem rounds_counted_on_end_click_only_witness:
  "rounds_completed (fst (snd (loop_iteration exact settings (same_everywhere button_env)
       \<lparr>self = plain_clicker, rounds_completed = 0, looking_for_end_button = True\<rparr>))) = 1 \<and>
   looking_for_end_button (fst (snd (loop_iteration exact settings (same_everywhere button_env)
       \<lparr>self = plain_clicker, rounds_completed = 0, looking_for_end_button = True\<rparr>))) = False \<and>
   loop_iteration exact settings (same_everywhere empty_env)
       \<lparr>self = plain_clicker, rounds_completed = 0, looking_for_end_button = True\<rparr> =
     ([LocateOnScreen ''images/end_button.png'' (Some (8 / 10)), Log (NotFound ''end button''),
       Sleep 2],
      \<lparr>self = plain_clicker, rounds_completed = 0, looking_for_end_button = True\<rparr>, None) \<and>
   rounds_completed (fst (snd (loop_iteration exact settings (same_everywhere empty_env)
       \<lparr>self = plain_clicker, rounds_completed = 0, looking_for_end_button = False\<rparr>))) = 0"
  using rounds_counted_on_end_click_only
          [of exact settings "same_everywhere button_env"
              "\<lparr>self = plain_clicker, rounds_completed = 0, looking_for_end_button = True\<rparr>"]
        rounds_counted_on_end_click_only
          [of exact settings "same_everywhere empty_env"
              "\<lparr>self = plain_clicker, rounds_completed = 0, looking_for_end_button = True\<rparr>"]
        rounds_counted_on_end_click_only
          [of exact settings "same_everywhere empty_env"
              "\<lparr>self = plain_clicker, rounds_completed = 0, looking_for_end_button = False\<rparr>"]
  by (simp add: button_end_click empty_end_click settings_fields)

text \<open>
  C7. The check of the initial state tries the end button first, the primary
  template and then, when that attempt answered \<open>False\<close> and the object has an
  alternative template, the alternative. If an end button was clicked the state
  seeks the start button, the wait is \<open>between_rounds_wait_time\<close> and
  \<open>rounds_completed\<close> is still 0. Otherwise, if the start button was clicked, the
  state seeks the end button and the wait is \<open>round_wait_time\<close>. Otherwise the
  state seeks the start button and nothing is waited for.
\<close>

theorem startup_probe_outcomes:
  "(click_end_button rnd cfg ie slf = (es, Inr True) \<longrightarrow>
      startup_probe rnd cfg ie (initial_state slf) =
        (es @ [Sleep (between_rounds_wait_time cfg)],
         \<lparr>self = slf, rounds_completed = 0, looking_for_end_button = False\<rparr>, None)) \<and>
   (click_end_button rnd cfg ie slf = (es, Inr False) \<and>
    find_and_click rnd cfg (at_start ie) slf (self_start_button_img slf) ''start button'' None
      = (es', Inr True) \<longrightarrow>
      startup_probe rnd cfg ie (initial_state slf) =
        (es @ es' @ [Sleep (round_wait_time cfg)],
         \<lparr>self = slf, rounds_completed = 0, looking_for_end_button = True\<rparr>, None)) \<and>
   (click_end_button rnd cfg ie slf = (es, Inr False) \<and>
    find_and_click rnd cfg (at_start ie) slf (self_start_button_img slf) ''start button'' None
      = (es', Inr False) \<longrightarrow>
      startup_probe rnd cfg ie (initial_state slf) =
        (es @ es', \<lparr>self = slf, rounds_completed = 0, looking_for_end_button = False\<rparr>, None)) \<and>
   click_end_button rnd cfg ie slf =
     (if snd (find_and_click rnd cfg (at_end ie) slf (self_end_button_img slf) ''end button'' None)
           = Inr False \<and> has_alt_end_button slf
      then (fst (find_and_click rnd cfg (at_end ie) slf (self_end_button_img slf) ''end button'' None)
              @ fst (find_and_click rnd cfg (at_alt_end ie) slf (self_end_button_alt_img slf)
                       ''alternative end button'' None),
            snd (find_and_click rnd cfg (at_alt_end ie) slf (self_end_button_alt_img slf)
                       ''alternative end button'' None))
      else find_and_click rnd cfg (at_end ie) slf (self_end_button_img slf) ''end button'' None)"
proof (intro conjI impI)
  show "click_end_button rnd cfg ie slf =
     (if snd (find_and_click rnd cfg (at_end ie) slf (self_end_button_img slf) ''end button'' None)
           = Inr False \<and> has_alt_end_button slf
      then (fst (find_and_click rnd cfg (at_end ie) slf (self_end_button_img slf) ''end button'' None)
              @ fst (find_and_click rnd cfg (at_alt_end ie) slf (self_end_button_alt_img slf)
                       ''alternative end button'' None),
            snd (find_and_click rnd cfg (at_alt_end ie) slf (self_end_button_alt_img slf)
                       ''alternative end button'' None))
      else find_and_click rnd cfg (at_end ie) slf (self_end_button_img slf) ''end button'' None)"
    by (rule click_end_button_order)
qed (simp_all add: startup_probe_def initial_state_def)

theorem startup_probe_outcomes_witness:
  "startup_probe exact settings (same_everywhere button_env) (initial_state plain_clicker) =
     ([LocateOnScreen ''images/end_button.png'' (Some (8 / 10)), Log (Located ''end button''),
       Sleep (2 / 10), MoveTo 125 125, Sleep (1 / 10), Click, Log (Clicked ''end button''),
       Sleep 3],
      \<lparr>self = plain_clicker, rounds_completed = 0, looking_for_end_button = False\<rparr>, None) \<and>
   startup_probe exact settings between_rounds (initial_state plain_clicker) =
     ([LocateOnScreen ''images/end_button.png'' (Some (8 / 10)), Log (NotFound ''end button''),
       LocateOnScreen ''images/start_button.png'' (Some (8 / 10)), Log (Located ''start button''),
       Sleep (2 / 10), MoveTo 125 125, Sleep (1 / 10), Click, Log (Clicked ''start button''),
       Sleep 30],
      \<lparr>self = plain_clicker, rounds_completed = 0, looking_for_end_button = True\<rparr>, None) \<and>
   startup_probe exact settings (same_everywhere empty_env) (initial_state plain_clicker) =
     ([LocateOnScreen ''images/end_button.png'' (Some (8 / 10)), Log (NotFound ''end button''),
       LocateOnScreen ''images/start_button.png'' (Some (8 / 10)), Log (NotFound ''start button'')],
      \<lparr>self = plain_clicker, rounds_completed = 0, looking_for_end_button = False\<rparr>, None)"
proof -
  have a: "find_and_click exact settings (at_start between_rounds) plain_clicker
             (self_start_button_img plain_clicker) ''start button'' None =
           ([LocateOnScreen ''images/start_button.png'' (Some (8 / 10)),
             Log (Located ''start button''), Sleep (2 / 10), MoveTo 125 125, Sleep (1 / 10),
             Click, Log (Clicked ''start button'')], Inr True)"
    by (simp add: world_fields clicker_fields button_click)
  have b: "find_and_click exact settings (at_start (same_everywhere empty_env)) plain_clicker
             (self_start_button_img plain_clicker) ''start button'' None =
           ([LocateOnScreen ''images/start_button.png'' (Some (8 / 10)),
             Log (NotFound ''start button'')], Inr False)"
    by (simp add: world_fields clicker_fields empty_click)
  have c1: "startup_probe exact settings (same_everywhere button_env) (initial_state plain_clicker) =
     ([LocateOnScreen ''images/end_button.png'' (Some (8 / 10)), Log (Located ''end button''),
       Sleep (2 / 10), MoveTo 125 125, Sleep (1 / 10), Click, Log (Clicked ''end button''),
       Sleep 3],
      \<lparr>self = plain_clicker, rounds_completed = 0, looking_for_end_button = False\<rparr>, None)"
    using startup_probe_outcomes
         [where rnd = exact and cfg = settings and ie = "same_everywhere button_env"
            and slf = plain_clicker
            and es = "fst (click_end_button exact settings (same_everywhere button_env) plain_clicker)",
          THEN conjunct1]
    by (simp add: button_end_click settings_fields)
  have c2: "startup_probe exact settings between_rounds (initial_state plain_clicker) =
     ([LocateOnScreen ''images/end_button.png'' (Some (8 / 10)), Log (NotFound ''end button''),
       LocateOnScreen ''images/start_button.png'' (Some (8 / 10)), Log (Located ''start button''),
       Sleep (2 / 10), MoveTo 125 125, Sleep (1 / 10), Click, Log (Clicked ''start button''),
       Sleep 30],
      \<lparr>self = plain_clicker, rounds_completed = 0, looking_for_end_button = True\<rparr>, None)"
    using startup_probe_outcomes
         [where rnd = exact and cfg = settings and ie = between_rounds and slf = plain_clicker
            and es = "fst (click_end_button exact settings between_rounds plain_clicker)"
            and es' = "fst (find_and_click exact settings (at_start between_rounds) plain_clicker
                             (self_start_button_img plain_clicker) ''start button'' None)",
          THEN conjunct2, THEN conjunct1]
    by (simp add: a between_rounds_end_click settings_fields)
  have c3: "startup_probe exact settings (same_everywhere empty_env) (initial_state plain_clicker) =
     ([LocateOnScreen ''images/end_button.png'' (Some (8 / 10)), Log (NotFound ''end button''),
       LocateOnScreen ''images/start_button.png'' (Some (8 / 10)), Log (NotFound ''start button'')],
      \<lparr>self = plain_clicker, rounds_completed = 0, looking_for_end_button = False\<rparr>, None)"
    using startup_probe_outcomes
         [where rnd = exact and cfg = settings and ie = "same_everywhere empty_env"
            and slf = plain_clicker
            and es = "fst (click_end_button exact settings (same_everywhere empty_env) plain_clicker)"
            and es' = "fst (find_and_click exact settings (at_start (same_everywhere empty_env))
                             plain_clicker (self_start_button_img plain_clicker)
                             ''start button'' None)",
          THEN conjunct2, THEN conjunct2, THEN conjunct1]
    by (simp add: b empty_end_click settings_fields)
  from c1 c2 c3 show ?thesis by blast
qed

text \<open>
  C8. For a reported size with no zero in it and a capture of any size, the scale
  factors are the quotients \<open>capturedWidth / reportedWidth\<close> and
  \<open>capturedHeight / reportedHeight\<close> as Python's division computes them (that is,
  rounded by \<open>rnd\<close>, which leaves 1 as it is; with exact arithmetic they are the
  quotients themselves). They are 1.0 when the two sizes are the same, and when the
  capture fails they stay 1.0 and the object keeps the reported size.
\<close>

theorem scale_factors_are_quotients:
  assumes reported: "pg_size e = Inr (sw, sh)"
    and nonzero: "sw \<noteq> 0" "sh \<noteq> 0"
    and one: "rnd 1 = 1"
  shows "(pg_screenshot e = Inr (aw, ah) \<longrightarrow>
            scale_factor_x (fst (snd (init_screen_geometry rnd e slf))) = rnd (of_int aw / of_int sw) \<and>
            scale_factor_y (fst (snd (init_screen_geometry rnd e slf))) = rnd (of_int ah / of_int sh)) \<and>
         (pg_screenshot e = Inr (sw, sh) \<longrightarrow>
            scale_factor_x (fst (snd (init_screen_geometry rnd e slf))) = 1 \<and>
            scale_factor_y (fst (snd (init_screen_geometry rnd e slf))) = 1) \<and>
         (pg_screenshot e = Inl ex \<longrightarrow>
            scale_factor_x (fst (snd (init_screen_geometry rnd e slf))) = 1 \<and>
            scale_factor_y (fst (snd (init_screen_geometry rnd e slf))) = 1 \<and>
            screen_width (fst (snd (init_screen_geometry rnd e slf))) = sw \<and>
            screen_height (fst (snd (init_screen_geometry rnd e slf))) = sh)"
proof -
  let ?s = "slf\<lparr>screen_width := sw, screen_height := sh, scale_factor_x := 1, scale_factor_y := 1\<rparr>"
  have init: "fst (snd (init_screen_geometry rnd e slf)) = fst (verify_body rnd e ?s)"
    using reported by (simp add: init_screen_geometry_def verify_keeps_state)
  have a: "pg_screenshot e = Inr (aw, ah) \<Longrightarrow>
            scale_factor_x (fst (verify_body rnd e ?s)) = rnd (of_int aw / of_int sw) \<and>
            scale_factor_y (fst (verify_body rnd e ?s)) = rnd (of_int ah / of_int sh)"
    using nonzero one by (simp add: verify_body_success)
  have b: "pg_screenshot e = Inr (sw, sh) \<Longrightarrow>
            scale_factor_x (fst (verify_body rnd e ?s)) = 1 \<and>
            scale_factor_y (fst (verify_body rnd e ?s)) = 1"
    using nonzero by (simp add: verify_body_success)
  have c: "pg_screenshot e = Inl ex \<Longrightarrow> fst (verify_body rnd e ?s) = ?s"
    by (simp add: verify_body_failure)
  show ?thesis
    unfolding init using a b c by simp
qed

theorem scale_factors_are_quotients_witness:
  "scale_factor_x (fst (snd (init_screen_geometry exact
       (calm_env (1920, 1080) (3840, 2160) None) fresh_clicker))) = 2 \<and>
   scale_factor_y (fst (snd (init_screen_geometry exact
       (calm_env (1920, 1080) (3840, 2160) None) fresh_clicker))) = 2 \<and>
   scale_factor_x (fst (snd (init_screen_geometry exact empty_env fresh_clicker))) = 1 \<and>
   scale_factor_y (fst (snd (init_screen_geometry exact empty_env fresh_clicker))) = 1 \<and>
   scale_factor_x (fst (snd (init_screen_geometry exact blind_env fresh_clicker))) = 1 \<and>
   scale_factor_y (fst (snd (init_screen_geometry exact blind_env fresh_clicker))) = 1 \<and>
   screen_width (fst (snd (init_screen_geometry exact blind_env fresh_clicker))) = 1920 \<and>
   screen_height (fst (snd (init_screen_geometry exact blind_env fresh_clicker))) = 1080"
proof -
  have one: "exact 1 = 1" by (simp add: exact_def)
  have nz: "(1920::int) \<noteq> 0" "(1080::int) \<noteq> 0" by simp_all
  have r1: "pg_size (calm_env (1920, 1080) (3840, 2160) None) = Inr (1920, 1080)"
    and s1: "pg_screenshot (calm_env (1920, 1080) (3840, 2160) None) = Inr (3840, 2160)"
    by (simp_all add: calm_env_def)
  have r2: "pg_size empty_env = Inr (1920, 1080)"
    and s2: "pg_screenshot empty_env = Inr (1920, 1080)"
    by (simp_all add: empty_env_def calm_env_def)
  have r3: "pg_size blind_env = Inr (1920, 1080)"
    and s3: "pg_screenshot blind_env = Inl (PyException ''screen grab failed'')"
    by (simp_all add: blind_env_def empty_env_def calm_env_def)
  from scale_factors_are_quotients
         [where rnd = exact and slf = fresh_clicker and aw = 3840 and ah = 2160, OF r1 nz one]
       s1
  have a: "scale_factor_x (fst (snd (init_screen_geometry exact
               (calm_env (1920, 1080) (3840, 2160) None) fresh_clicker))) = 2 \<and>
           scale_factor_y (fst (snd (init_screen_geometry exact
               (calm_env (1920, 1080) (3840, 2160) None) fresh_clicker))) = 2"
    by (simp add: exact_def)
  from scale_factors_are_quotients
         [where rnd = exact and slf = fresh_clicker, OF r2 nz one]
       s2
  have b: "scale_factor_x (fst (snd (init_screen_geometry exact empty_env fresh_clicker))) = 1 \<and>
           scale_factor_y (fst (snd (init_screen_geometry exact empty_env fresh_clicker))) = 1"
    by simp
  from scale_factors_are_quotients
         [where rnd = exact and slf = fresh_clicker
            and ex = "PyException ''screen grab failed''", OF r3 nz one]
       s3
  have c: "scale_factor_x (fst (snd (init_screen_geometry exact blind_env fresh_clicker))) = 1 \<and>
           scale_factor_y (fst (snd (init_screen_geometry exact blind_env fresh_clicker))) = 1 \<and>
           screen_width (fst (snd (init_screen_geometry exact blind_env fresh_clicker))) = 1920 \<and>
           screen_height (fst (snd (init_screen_geometry exact blind_env fresh_clicker))) = 1080"
    by simp
  from a b c show ?thesis by blast
qed

text \<open>
  C9. A lookup never hands an error to the loop: no exception of class \<open>Exception\<close>
  leaves \<open>find_and_click\<close>. When the matcher raises an exception whose message
  speaks of \<open>confidence\<close>, the lookup asks once more, without a confidence, and
  the answer to that second query is the lookup's answer, whatever it is. When the
  matcher raises any other exception, \<open>find_and_click\<close> answers \<open>False\<close> (or is
  left by the user's interrupt, should the interrupt arrive in debug mode before the
  matcher is asked).
\<close>

theorem lookup_never_propagates_error:
  "snd (find_and_click rnd cfg e slf p d alt) \<noteq> Inl (PyException msg) \<and>
   (pg_locateOnScreen e p (Some c) = Inl (PyException m) \<and> str_contains ''confidence'' m \<longrightarrow>
      locate_primary e p d c =
        ([LocateOnScreen p (Some c), Log ConfidenceFallback, LocateOnScreen p None],
         pg_locateOnScreen e p None)) \<and>
   (pg_locateOnScreen e p (Some (getattr_confidence_threshold cfg)) = Inl (PyException m) \<and>
    \<not> str_contains ''confidence'' m \<longrightarrow>
      snd (find_and_click rnd cfg e slf p d alt) = Inr False \<or>
      snd (find_and_click rnd cfg e slf p d alt) = Inl KeyboardInterrupt) \<and>
   (pg_locateOnScreen e p (Some (getattr_confidence_threshold cfg)) = Inl (PyException m) \<and>
    \<not> str_contains ''confidence'' m \<and> debug_mode cfg = Some False \<longrightarrow>
      find_and_click rnd cfg e slf p d alt =
        ([LocateOnScreen p (Some (getattr_confidence_threshold cfg)),
          Log (ErrorFinding d (PyException m))], Inr False))"
proof (intro conjI impI)
  show "snd (find_and_click rnd cfg e slf p d alt) \<noteq> Inl (PyException msg)"
    by (rule find_and_click_no_pyexn)
next
  assume "pg_locateOnScreen e p (Some c) = Inl (PyException m) \<and> str_contains ''confidence'' m"
  then show "locate_primary e p d c =
        ([LocateOnScreen p (Some c), Log ConfidenceFallback, LocateOnScreen p None],
         pg_locateOnScreen e p None)"
    by (simp add: locate_primary_fallback)
next
  assume "pg_locateOnScreen e p (Some (getattr_confidence_threshold cfg)) = Inl (PyException m) \<and>
    \<not> str_contains ''confidence'' m"
  then have "snd (locate_primary e p d (getattr_confidence_threshold cfg)) = Inl (PyException m)"
    by (simp add: locate_primary_other_failure)
  then show "snd (find_and_click rnd cfg e slf p d alt) = Inr False \<or>
      snd (find_and_click rnd cfg e slf p d alt) = Inl KeyboardInterrupt"
    by (rule find_and_click_false_when_locate_fails)
next
  assume a: "pg_locateOnScreen e p (Some (getattr_confidence_threshold cfg)) = Inl (PyException m) \<and>
    \<not> str_contains ''confidence'' m \<and> debug_mode cfg = Some False"
  then have "locate_primary e p d (getattr_confidence_threshold cfg) =
      ([LocateOnScreen p (Some (getattr_confidence_threshold cfg))], Inl (PyException m))"
    by (simp add: locate_primary_other_failure)
  with a show "find_and_click rnd cfg e slf p d alt =
        ([LocateOnScreen p (Some (getattr_confidence_threshold cfg)),
          Log (ErrorFinding d (PyException m))], Inr False)"
    by (simp add: find_and_click_def find_and_click_body_def Let_def attr_debug_mode_def
        try_except_def bind_def seq_def emit_def ret_def lift_def)
qed

theorem lookup_never_propagates_error_witness:
  "locate_primary no_opencv_env ''images/start_button.png'' ''start button'' (8 / 10) =
     ([LocateOnScreen ''images/start_button.png'' (Some (8 / 10)), Log ConfidenceFallback,
       LocateOnScreen ''images/start_button.png'' None],
      Inr (Some \<lparr>b_left = 100, b_top = 100, b_width = 50, b_height = 50\<rparr>)) \<and>
   find_and_click exact settings broken_matcher_env plain_clicker
       ''images/start_button.png'' ''start button'' None =
     ([LocateOnScreen ''images/start_button.png'' (Some (8 / 10)),
       Log (ErrorFinding ''start button'' (PyException ''screen grab failed''))], Inr False) \<and>
   snd (find_and_click exact settings broken_matcher_env plain_clicker
       ''images/start_button.png'' ''start button'' None)
     \<noteq> Inl (PyException ''screen grab failed'')"
proof -
  let ?m = "''The confidence keyword argument is only available if OpenCV is installed.''"
  have f1: "pg_locateOnScreen no_opencv_env ''images/start_button.png'' (Some (8 / 10))
              = Inl (PyException ?m)"
    and f2: "pg_locateOnScreen no_opencv_env ''images/start_button.png'' None
              = Inr (Some \<lparr>b_left = 100, b_top = 100, b_width = 50, b_height = 50\<rparr>)"
    by (simp_all add: no_opencv_env_def button_env_def calm_env_def)
  have f3: "str_contains ''confidence'' ?m" by simp
  have g1: "pg_locateOnScreen broken_matcher_env ''images/start_button.png''
              (Some (getattr_confidence_threshold settings))
              = Inl (PyException ''screen grab failed'')"
    by (simp add: broken_matcher_env_def button_env_def calm_env_def)
  have g2: "\<not> str_contains ''confidence'' ''screen grab failed''" by simp
  have g3: "debug_mode settings = Some False" by (simp add: settings_fields)
  have a: "locate_primary no_opencv_env ''images/start_button.png'' ''start button'' (8 / 10) =
     ([LocateOnScreen ''images/start_button.png'' (Some (8 / 10)), Log ConfidenceFallback,
       LocateOnScreen ''images/start_button.png'' None],
      Inr (Some \<lparr>b_left = 100, b_top = 100, b_width = 50, b_height = 50\<rparr>))"
    using lookup_never_propagates_error
           [where e = no_opencv_env and p = "''images/start_button.png''" and c = "8 / 10"
              and m = ?m and d = "''start button''", THEN conjunct2, THEN conjunct1]
          f1 f2 f3
    by simp
  have b: "find_and_click exact settings broken_matcher_env plain_clicker
       ''images/start_button.png'' ''start button'' None =
     ([LocateOnScreen ''images/start_button.png'' (Some (8 / 10)),
       Log (ErrorFinding ''start button'' (PyException ''screen grab failed''))], Inr False)"
    using lookup_never_propagates_error
           [where rnd = exact and cfg = settings and e = broken_matcher_env
              and slf = plain_clicker and p = "''images/start_button.png''"
              and d = "''start button''" and alt = None and m = "''screen grab failed''",
            THEN conjunct2, THEN conjunct2, THEN conjunct2]
          g1 g2 g3
    by (simp add: settings_fields)
  from a b show ?thesis by simp
qed

text \<open>
  C10. The confidence threshold used for matching defaults to 0.8, as the settings
  class has it: the class defines \<open>confidence_threshold\<close>, so the guarded
  assignment of 0.9 at the top of the command-line module changes nothing, the
  \<open>getattr\<close> default 0.9 of \<open>find_and_click\<close> is not taken, and the first call
  of the matcher in \<open>find_and_click\<close> passes 0.8.
\<close>

theorem confidence_threshold_default:
  "confidence_threshold Config = Some (8 / 10) \<and>
   default_confidence_threshold (default_debug_mode Config) = default_debug_mode Config \<and>
   confidence_threshold (cli_module_init Config) = Some (8 / 10) \<and>
   getattr_confidence_threshold (cli_module_init Config) = 8 / 10 \<and>
   (\<exists>es. fst (find_and_click rnd (cli_module_init Config) e slf p d alt) =
           LocateOnScreen p (Some (8 / 10)) # es)"
proof -
  have a: "debug_mode (cli_module_init Config) = Some False"
    by (simp add: cfg_after_init)
  have b: "getattr_confidence_threshold (cli_module_init Config) = 8 / 10"
    unfolding cfg_after_init by (simp add: getattr_confidence_threshold_def Config_def)
  have c: "confidence_threshold Config = Some (8 / 10)"
    by (simp add: Config_def)
  have d: "default_confidence_threshold (default_debug_mode Config) = default_debug_mode Config"
    by (simp add: default_confidence_threshold_def default_debug_mode_def Config_def)
  have e: "confidence_threshold (cli_module_init Config) = Some (8 / 10)"
    unfolding cfg_after_init by (simp add: Config_def)
  from first_locate[OF a, of rnd e slf p d alt] b c d e
  show ?thesis by simp
qed

end
